theory Spec2Isabelle
  imports Main "HOL-Library.Word" "HOL-Library.Multiset" "HOL-Library.Log_Nat"
begin

section \<open>JavaScript values used by the server\<close>

text \<open>
  Strings are lists of characters; the characters are the code units below 256.
  The Numbers that occur are integers, infinities and NaN.  A Number is an IEEE double:
  an integer above \<open>2 ^ 53\<close> in magnitude is rounded to 53 significant bits, the nearest
  such value, the even one of two equally near, and to an infinity from \<open>2 ^ 1024\<close>.
\<close>

type_synonym byte = "8 word"

datatype number = NaN | Num int | PlusInfinity | MinusInfinity

definition roundMagnitude :: "int \<Rightarrow> int option" where
  "roundMagnitude m =
     (if m \<le> 2 ^ 53 then Some m
      else
        let e = nat (bitlen m - 53);
            q = m div 2 ^ e;
            r = m mod 2 ^ e;
            half = 2 ^ (e - 1);
            q' = (if half < r \<or> (r = half \<and> odd q) then q + 1 else q)
        in if 2 ^ 1024 \<le> q' * 2 ^ e then None else Some (q' * 2 ^ e))"

definition roundToDouble :: "int \<Rightarrow> number" where
  "roundToDouble v =
     (case roundMagnitude \<bar>v\<bar> of
        None \<Rightarrow> (if v < 0 then MinusInfinity else PlusInfinity)
      | Some m \<Rightarrow> Num (if v < 0 then - m else m))"

fun isPositive :: "number \<Rightarrow> bool" where
  "isPositive (Num d) = (0 < d)"
| "isPositive PlusInfinity = True"
| "isPositive _ = False"

fun isNegative :: "number \<Rightarrow> bool" where
  "isNegative (Num d) = (d < 0)"
| "isNegative MinusInfinity = True"
| "isNegative _ = False"

text \<open>A thrown value: an instance of \<open>Error\<close> with its message, or any other value,
  kept as the string \<open>String(error)\<close> yields.\<close>

datatype thrown = JsError string | NonError string

fun errorMessage :: "thrown \<Rightarrow> string" where
  "errorMessage (JsError message) = message"
| "errorMessage (NonError s) = s"

definition endsWith :: "string \<Rightarrow> string \<Rightarrow> bool" where
  "endsWith s suffix_str =
     (length suffix_str \<le> length s \<and> drop (length s - length suffix_str) s = suffix_str)"

text \<open>\<open>s.split(c)\<close> for a one-character separator: never empty, \<open>"".split(c)\<close> is \<open>[""]\<close>.\<close>

fun split_str :: "char \<Rightarrow> string \<Rightarrow> string list" where
  "split_str sep [] = [[]]"
| "split_str sep (c # cs) =
     (if c = sep then [] # split_str sep cs
      else (case split_str sep cs of
              [] \<Rightarrow> [[c]]
            | piece # pieces \<Rightarrow> (c # piece) # pieces))"

text \<open>White space and line terminators that \<open>parseInt\<close> and \<open>trim\<close> strip
  (tab, LF, VT, FF, CR, space, no-break space).\<close>

definition isWhiteSpace :: "char \<Rightarrow> bool" where
  "isWhiteSpace c = (of_char c \<in> {9, 10, 11, 12, 13, 32, 160 :: nat})"

definition trim :: "string \<Rightarrow> string" where
  "trim s = rev (dropWhile isWhiteSpace (rev (dropWhile isWhiteSpace s)))"

text \<open>The value of a character as a digit of the given radix (10 or 16).\<close>

definition digitValue :: "nat \<Rightarrow> char \<Rightarrow> nat option" where
  "digitValue radix c =
     (let n = (of_char c :: nat);
          v = (if 48 \<le> n \<and> n \<le> 57 then Some (n - 48)
               else if 97 \<le> n \<and> n \<le> 122 then Some (n - 87)
               else if 65 \<le> n \<and> n \<le> 90 then Some (n - 55)
               else None)
      in case v of None \<Rightarrow> None | Some d \<Rightarrow> if d < radix then Some d else None)"

fun digitsValue :: "nat \<Rightarrow> int \<Rightarrow> string \<Rightarrow> int" where
  "digitsValue radix acc [] = acc"
| "digitsValue radix acc (c # cs) =
     digitsValue radix
       (acc * int radix + (case digitValue radix c of None \<Rightarrow> 0 | Some d \<Rightarrow> int d)) cs"

text \<open>
  \<open>parseInt(s)\<close> with no radix: strip leading white space, read a sign, switch to radix
  16 after a \<open>0x\<close> or \<open>0X\<close> prefix, read the longest run of digits; NaN when that run
  is empty, otherwise the Number nearest to the signed value of the run.
\<close>

definition parseInt :: "string \<Rightarrow> number" where
  "parseInt inputString =
     (let s = dropWhile isWhiteSpace inputString;
          negative = (s \<noteq> [] \<and> hd s = CHR ''-'');
          s = (if s \<noteq> [] \<and> (hd s = CHR ''+'' \<or> hd s = CHR ''-'') then tl s else s);
          hex = (take 2 s = ''0x'' \<or> take 2 s = ''0X'');
          radix = (if hex then 16 else 10);
          s = (if hex then drop 2 s else s);
          z = takeWhile (\<lambda>c. digitValue radix c \<noteq> None) s
      in if z = [] then NaN
         else roundToDouble ((if negative then - 1 else 1) * digitsValue radix 0 z))"

text \<open>Subtraction of two Numbers.\<close>

fun minus_number :: "number \<Rightarrow> number \<Rightarrow> number" where
  "minus_number (Num x) (Num y) = roundToDouble (x - y)"
| "minus_number NaN _ = NaN"
| "minus_number _ NaN = NaN"
| "minus_number PlusInfinity PlusInfinity = NaN"
| "minus_number MinusInfinity MinusInfinity = NaN"
| "minus_number PlusInfinity _ = PlusInfinity"
| "minus_number MinusInfinity _ = MinusInfinity"
| "minus_number _ PlusInfinity = MinusInfinity"
| "minus_number _ MinusInfinity = PlusInfinity"

section \<open>Array.prototype.sort with a comparator\<close>

text \<open>
  A comparator result that is positive asks for the first argument after the second,
  a negative one for the first before the second.  The language requires the sort to be
  stable and, when the comparator is consistent on the elements, to return them in the
  order the comparator asks for: that array is unique, and \<open>stableSort\<close>, insertion from
  the right, computes it.  When the comparator is not consistent (a result is NaN, or
  the results contradict one another) the order is left to the engine, which still
  returns a rearrangement of the array; \<open>engine\<close> stands for the order it chooses.
\<close>

fun insert_by :: "('a \<Rightarrow> 'a \<Rightarrow> number) \<Rightarrow> 'a \<Rightarrow> 'a list \<Rightarrow> 'a list" where
  "insert_by cmp x [] = [x]"
| "insert_by cmp x (y # ys) =
     (if isPositive (cmp x y) then y # insert_by cmp x ys else x # y # ys)"

definition stableSort :: "('a \<Rightarrow> 'a \<Rightarrow> number) \<Rightarrow> 'a list \<Rightarrow> 'a list" where
  "stableSort cmp xs = foldr (insert_by cmp) xs []"

definition consistentComparator :: "('a \<Rightarrow> 'a \<Rightarrow> number) \<Rightarrow> 'a list \<Rightarrow> bool" where
  "consistentComparator cmp xs =
     (\<forall>a \<in> set xs. \<forall>b \<in> set xs. \<forall>c \<in> set xs.
        cmp a b \<noteq> NaN
        \<and> \<not> isPositive (cmp a a) \<and> \<not> isNegative (cmp a a)
        \<and> isPositive (cmp a b) = isNegative (cmp b a)
        \<and> (\<not> isPositive (cmp a b) \<and> \<not> isPositive (cmp b c) \<longrightarrow> \<not> isPositive (cmp a c)))"

definition arraySort ::
  "(('a \<Rightarrow> 'a \<Rightarrow> number) \<Rightarrow> 'a list \<Rightarrow> 'a list) \<Rightarrow> ('a \<Rightarrow> 'a \<Rightarrow> number) \<Rightarrow> 'a list \<Rightarrow> 'a list" where
  "arraySort engine cmp xs =
     (if consistentComparator cmp xs then stableSort cmp xs
      else if mset (engine cmp xs) = mset xs then engine cmp xs
      else stableSort cmp xs)"

text \<open>\<open>parseInt(a.split(".")[0])\<close>.\<close>

definition leadingNumber :: "string \<Rightarrow> number" where
  "leadingNumber a =
     (case split_str CHR ''.'' a of [] \<Rightarrow> parseInt ''undefined'' | piece # _ \<Rightarrow> parseInt piece)"

text \<open>The comparator of \<open>generateSlide\<close>: \<open>(a, b) => numA - numB\<close>.\<close>

definition compareFiles :: "string \<Rightarrow> string \<Rightarrow> number" where
  "compareFiles a b = minus_number (leadingNumber a) (leadingNumber b)"

section \<open>Buffer.toString("base64")\<close>

definition base64_alphabet :: string where
  "base64_alphabet =
     ''ABCDEFGHIJKLMNOPQRSTUVWXYZabcdefghijklmnopqrstuvwxyz0123456789+/''"

definition base64_char :: "nat \<Rightarrow> char" where
  "base64_char n = base64_alphabet ! n"

text \<open>Three bytes give four characters; one or two trailing bytes are padded with
  \<open>=\<close>.\<close>

fun toString_base64 :: "byte list \<Rightarrow> string" where
  "toString_base64 [] = []"
| "toString_base64 [a] =
     [base64_char (unat a div 4), base64_char ((unat a mod 4) * 16), CHR ''='', CHR ''='']"
| "toString_base64 [a, b] =
     [base64_char (unat a div 4), base64_char ((unat a mod 4) * 16 + unat b div 16),
      base64_char ((unat b mod 16) * 4), CHR ''='']"
| "toString_base64 (a # b # c # rest) =
     [base64_char (unat a div 4), base64_char ((unat a mod 4) * 16 + unat b div 16),
      base64_char ((unat b mod 16) * 4 + unat c div 64), base64_char (unat c mod 64)]
     @ toString_base64 rest"

text \<open>The decoder of RFC 4648 (padding required), against which the encoder is
  checked.  \<open>None\<close> on malformed input.\<close>

fun index_of :: "'a \<Rightarrow> 'a list \<Rightarrow> nat option" where
  "index_of x [] = None"
| "index_of x (y # ys) =
     (if x = y then Some 0 else map_option Suc (index_of x ys))"

definition sextet :: "char \<Rightarrow> nat option" where
  "sextet c = index_of c base64_alphabet"

text \<open>The three bytes carried by four sextets.\<close>

definition byte1 :: "nat \<Rightarrow> nat \<Rightarrow> byte" where
  "byte1 s1 s2 = of_nat (s1 * 4 + s2 div 16)"

definition byte2 :: "nat \<Rightarrow> nat \<Rightarrow> byte" where
  "byte2 s2 s3 = of_nat ((s2 mod 16) * 16 + s3 div 4)"

definition byte3 :: "nat \<Rightarrow> nat \<Rightarrow> byte" where
  "byte3 s3 s4 = of_nat ((s3 mod 4) * 64 + s4)"

fun base64_decode :: "string \<Rightarrow> byte list option" where
  "base64_decode [] = Some []"
| "base64_decode (c1 # c2 # c3 # c4 # rest) =
     (case (sextet c1, sextet c2) of
        (Some s1, Some s2) \<Rightarrow>
          (if rest = [] \<and> c3 = CHR ''='' \<and> c4 = CHR ''=''
           then Some [byte1 s1 s2]
           else (case sextet c3 of
                   None \<Rightarrow> None
                 | Some s3 \<Rightarrow>
                     (if rest = [] \<and> c4 = CHR ''=''
                      then Some [byte1 s1 s2, byte2 s2 s3]
                      else (case sextet c4 of
                              None \<Rightarrow> None
                            | Some s4 \<Rightarrow>
                                map_option
                                  (\<lambda>bytes. byte1 s1 s2 # byte2 s2 s3 # byte3 s3 s4 # bytes)
                                  (base64_decode rest)))))
      | _ \<Rightarrow> None)"
| "base64_decode _ = None"

section \<open>JSON.stringify\<close>

definition hexDigit :: "nat \<Rightarrow> char" where
  "hexDigit n = ''0123456789abcdef'' ! n"

text \<open>One character of a quoted JSON string: the short escapes, \<open>\u00XX\<close> for the
  other control characters, the character itself otherwise.\<close>

definition quoteJSONChar :: "char \<Rightarrow> string" where
  "quoteJSONChar c =
     (let n = (of_char c :: nat) in
      if n = 8 then [CHR 0x5C, CHR ''b'']
      else if n = 9 then [CHR 0x5C, CHR ''t'']
      else if n = 10 then [CHR 0x5C, CHR ''n'']
      else if n = 12 then [CHR 0x5C, CHR ''f'']
      else if n = 13 then [CHR 0x5C, CHR ''r'']
      else if n = 34 then [CHR 0x5C, CHR 0x22]
      else if n = 92 then [CHR 0x5C, CHR 0x5C]
      else if n < 32 then [CHR 0x5C, CHR ''u'', CHR ''0'', CHR ''0'', hexDigit (n div 16), hexDigit (n mod 16)]
      else [c])"

definition quoteJSONString :: "string \<Rightarrow> string" where
  "quoteJSONString s = [CHR 0x22] @ concat (map quoteJSONChar s) @ [CHR 0x22]"

text \<open>\<open>JSON.stringify({ markdown, theme })\<close>: both properties are strings.\<close>

definition JSON_stringify_params :: "string \<Rightarrow> string \<Rightarrow> string" where
  "JSON_stringify_params markdown theme =
     ''{'' @ quoteJSONString ''markdown'' @ '':'' @ quoteJSONString markdown @ '',''
       @ quoteJSONString ''theme'' @ '':'' @ quoteJSONString theme @ ''}''"





section \<open>path.join and path.relative (POSIX)\<close>

text \<open>
  The functions of Node's \<open>path\<close> module on a POSIX host.  Normalisation works on the
  segments between slashes: empty segments and \<open>.\<close> are dropped, \<open>..\<close> removes the
  segment before it, or is kept when there is none and the path is relative.
\<close>

fun normalizeSegments :: "bool \<Rightarrow> string list \<Rightarrow> string list \<Rightarrow> string list" where
  "normalizeSegments allowAboveRoot res [] = res"
| "normalizeSegments allowAboveRoot res (seg # segs) =
     (if seg = [] \<or> seg = ''.'' then normalizeSegments allowAboveRoot res segs
      else if seg = ''..'' then
        (if res \<noteq> [] \<and> last res \<noteq> ''..''
         then normalizeSegments allowAboveRoot (butlast res) segs
         else if allowAboveRoot then normalizeSegments allowAboveRoot (res @ [''..'']) segs
         else normalizeSegments allowAboveRoot res segs)
      else normalizeSegments allowAboveRoot (res @ [seg]) segs)"

fun joinSegments :: "string list \<Rightarrow> string" where
  "joinSegments [] = []"
| "joinSegments [seg] = seg"
| "joinSegments (seg # segs) = seg @ ''/'' @ joinSegments segs"

definition isAbsolute :: "string \<Rightarrow> bool" where
  "isAbsolute path = (path \<noteq> [] \<and> hd path = CHR ''/'')"

definition path_normalize :: "string \<Rightarrow> string" where
  "path_normalize path =
     (if path = [] then ''.''
      else
        let trailingSeparator = (last path = CHR ''/'');
            p = joinSegments
                  (normalizeSegments (\<not> isAbsolute path) [] (split_str CHR ''/'' path))
        in if p = [] then
             (if isAbsolute path then ''/'' else if trailingSeparator then ''./'' else ''.'')
           else
             (if isAbsolute path then ''/'' else []) @ p
               @ (if trailingSeparator then ''/'' else []))"

text \<open>\<open>join(...args)\<close>: the non-empty arguments joined by slashes, normalised.\<close>

definition path_join :: "string list \<Rightarrow> string" where
  "path_join args =
     (case filter (\<lambda>arg. arg \<noteq> []) args of
        [] \<Rightarrow> ''.''
      | parts \<Rightarrow> path_normalize (joinSegments parts))"

text \<open>The segments of \<open>resolve(path)\<close>, which prefixes the current directory to a
  relative path.\<close>

definition resolveSegments :: "string \<Rightarrow> string \<Rightarrow> string list" where
  "resolveSegments cwd path =
     (if isAbsolute path then normalizeSegments False [] (split_str CHR ''/'' path)
      else normalizeSegments (\<not> isAbsolute cwd) []
             (split_str CHR ''/'' (if path = [] then cwd else cwd @ ''/'' @ path)))"

fun dropCommonPrefix :: "'a list \<Rightarrow> 'a list \<Rightarrow> 'a list \<times> 'a list" where
  "dropCommonPrefix (x # xs) (y # ys) =
     (if x = y then dropCommonPrefix xs ys else (x # xs, y # ys))"
| "dropCommonPrefix xs ys = (xs, ys)"

text \<open>\<open>relative(from, to)\<close>: both paths resolved, the common leading segments
  removed, one \<open>..\<close> for each segment left of \<open>from\<close>, then what is left of \<open>to\<close>.\<close>

definition path_relative :: "string \<Rightarrow> string \<Rightarrow> string \<Rightarrow> string" where
  "path_relative cwd from to =
     (case dropCommonPrefix (resolveSegments cwd from) (resolveSegments cwd to) of
        (up, down) \<Rightarrow> joinSegments (map (\<lambda>_. ''..'') up @ down))"

section \<open>The host: file system, subprocess, random identifiers\<close>

text \<open>
  The Node.js primitives the handlers call are outside the repository.  They are the
  fields of \<open>node_api\<close>, functions on a host state \<open>'os\<close> that the model never
  inspects: each may throw, and any behaviour of the renderer is some \<open>execSync\<close>.
  \<open>engine_sort\<close> is the order the engine gives an array whose comparator is not
  consistent.
  \<open>process.cwd()\<close> and \<open>randomUUID()\<close> are taken not to throw.  Buffers are taken
  to be within the engine's string length limit, so that \<open>toString("base64")\<close>
  returns.
\<close>

record 'os node_api =
  process_cwd :: "'os \<Rightarrow> string"
  randomUUID :: "'os \<Rightarrow> string \<times> 'os"
  existsSync :: "string \<Rightarrow> 'os \<Rightarrow> bool"
  mkdirSync :: "string \<Rightarrow> 'os \<Rightarrow> (thrown + unit) \<times> 'os"
  writeFileSync :: "string \<Rightarrow> string \<Rightarrow> 'os \<Rightarrow> (thrown + unit) \<times> 'os"
  execSync :: "string \<Rightarrow> string \<Rightarrow> 'os \<Rightarrow> (thrown + unit) \<times> 'os"
  readdirSync :: "string \<Rightarrow> 'os \<Rightarrow> thrown + string list"
  readFileSync :: "string \<Rightarrow> 'os \<Rightarrow> thrown + byte list"
  engine_sort :: "(string \<Rightarrow> string \<Rightarrow> number) \<Rightarrow> string list \<Rightarrow> string list"

text \<open>The state a handler runs in: the host state and a journal of the calls that
  change it, in the order they were made (\<open>Exec command cwd\<close> for \<open>execSync\<close>).\<close>

datatype call = Mkdir string | WriteFile string string | Exec string string

record 'os world =
  os :: "'os"
  journal :: "call list"

type_synonym ('os, 'a) action = "'os world \<Rightarrow> (thrown + 'a) \<times> 'os world"

text \<open>Sequencing inside a \<open>try\<close> block: the first throw ends the block.\<close>

definition and_then :: "('os, 'a) action \<Rightarrow> ('a \<Rightarrow> ('os, 'b) action) \<Rightarrow> ('os, 'b) action" where
  "and_then first rest w =
     (case first w of
        (Inl error, w') \<Rightarrow> (Inl error, w')
      | (Inr value, w') \<Rightarrow> rest value w')"

definition call_mkdirSync :: "'os node_api \<Rightarrow> string \<Rightarrow> ('os, unit) action" where
  "call_mkdirSync api dir w =
     (case mkdirSync api dir (os w) of
        (outcome, os') \<Rightarrow> (outcome, \<lparr>os = os', journal = journal w @ [Mkdir dir]\<rparr>))"

definition call_writeFileSync :: "'os node_api \<Rightarrow> string \<Rightarrow> string \<Rightarrow> ('os, unit) action" where
  "call_writeFileSync api file data w =
     (case writeFileSync api file data (os w) of
        (outcome, os') \<Rightarrow> (outcome, \<lparr>os = os', journal = journal w @ [WriteFile file data]\<rparr>))"

definition call_execSync :: "'os node_api \<Rightarrow> string \<Rightarrow> string \<Rightarrow> ('os, unit) action" where
  "call_execSync api command cwd w =
     (case execSync api command cwd (os w) of
        (outcome, os') \<Rightarrow> (outcome, \<lparr>os = os', journal = journal w @ [Exec command cwd]\<rparr>))"

text \<open>\<open>readdirSync(dir).filter(file => file.endsWith(".png")).sort(...)\<close>.\<close>

definition pngFiles :: "'os node_api \<Rightarrow> string list \<Rightarrow> string list" where
  "pngFiles api names =
     arraySort (engine_sort api) compareFiles (filter (\<lambda>file. endsWith file ''.png'') names)"

section \<open>The three generation tools (src/index.ts)\<close>

datatype content =
    TextPart string
  | ImagePart string string
  | ResourcePart string string string

text \<open>\<open>TextPart text\<close>, \<open>ImagePart data mimeType\<close>,
  \<open>ResourcePart uri blob mimeType\<close>.  A handler returns an object whose only field is
  \<open>content\<close>, the list modelled here.\<close>

fun isImage :: "content \<Rightarrow> bool" where
  "isImage (ImagePart _ _) = True"
| "isImage _ = False"

fun isResource :: "content \<Rightarrow> bool" where
  "isResource (ResourcePart _ _ _) = True"
| "isResource _ = False"

fun isText :: "content \<Rightarrow> bool" where
  "isText (TextPart _) = True"
| "isText _ = False"

text \<open>The command line:
  \<^verbatim>\<open>"${slidevPath}" export --format <format> --theme ${theme} "slides.md"\<close>.\<close>

definition slidevCommand :: "string \<Rightarrow> string \<Rightarrow> string \<Rightarrow> string" where
  "slidevCommand projectDir format theme =
     [CHR 0x22] @ path_join [projectDir, ''node_modules'', ''.bin'', ''slidev''] @ [CHR 0x22]
       @ '' export --format '' @ format @ '' --theme '' @ theme @ '' ''
       @ [CHR 0x22] @ ''slides.md'' @ [CHR 0x22]"

text \<open>
  Each handler starts with the same four constants, computed before its \<open>try\<close>
  block: the project directory, the work directory under it, a fresh identifier and the
  execution directory named by it.
\<close>

record invocation =
  projectDir :: string
  workDir :: string
  executionId :: string
  executionDir :: string

definition begin_invocation :: "'os node_api \<Rightarrow> 'os world \<Rightarrow> invocation \<times> 'os world" where
  "begin_invocation api w =
     (let projectDir = process_cwd api (os w);
          workDir = path_join [projectDir, ''.slidev-work''];
          (executionId, os1) = randomUUID api (os w);
          executionDir = path_join [workDir, executionId]
      in (\<lparr>projectDir = projectDir, workDir = workDir,
           executionId = executionId, executionDir = executionDir\<rparr>,
          w\<lparr>os := os1\<rparr>))"

text \<open>
  The first statements of each \<open>try\<close> block are the same in the three handlers:
  make the work directory unless it exists, make the execution directory, write
  \<open>slides.md\<close>.
\<close>

definition stage :: "'os node_api \<Rightarrow> string \<Rightarrow> invocation \<Rightarrow> ('os, unit) action" where
  "stage api markdown ctx =
     and_then (\<lambda>w. if existsSync api (workDir ctx) (os w) then (Inr (), w)
                    else call_mkdirSync api (workDir ctx) w)
       (\<lambda>_. and_then (call_mkdirSync api (executionDir ctx))
       (\<lambda>_. call_writeFileSync api (path_join [executionDir ctx, ''slides.md'']) markdown))"

text \<open>Then the renderer runs in the execution directory, with the handler's format.\<close>

definition stageAndExport ::
  "'os node_api \<Rightarrow> string \<Rightarrow> string \<Rightarrow> string \<Rightarrow> invocation \<Rightarrow> ('os, unit) action" where
  "stageAndExport api format markdown theme ctx =
     and_then (stage api markdown ctx)
       (\<lambda>_. call_execSync api (slidevCommand (projectDir ctx) format theme) (executionDir ctx))"

text \<open>\<open>files.map(file => ...)\<close>: read and encode each file in turn; the first read
  that throws ends the map.\<close>

fun readImages :: "'os node_api \<Rightarrow> string \<Rightarrow> string list \<Rightarrow> 'os \<Rightarrow> thrown + content list" where
  "readImages api slidesExportDir [] s = Inr []"
| "readImages api slidesExportDir (file # files) s =
     (case readFileSync api (path_join [slidesExportDir, file]) s of
        Inl error \<Rightarrow> Inl error
      | Inr pngBuffer \<Rightarrow>
          (case readImages api slidesExportDir files s of
             Inl error \<Rightarrow> Inl error
           | Inr contentArray \<Rightarrow>
               Inr (ImagePart (toString_base64 pngBuffer) ''image/png'' # contentArray)))"

text \<open>The destructuring default \<open>theme = "default"\<close>.\<close>

fun themeOrDefault :: "string option \<Rightarrow> string" where
  "themeOrDefault None = ''default''"
| "themeOrDefault (Some theme) = theme"

text \<open>The \<open>try\<close> block of \<open>generateSlide\<close>.\<close>

definition generateSlide_try ::
  "'os node_api \<Rightarrow> string \<Rightarrow> string \<Rightarrow> invocation \<Rightarrow> ('os, content list) action" where
  "generateSlide_try api markdown theme ctx =
     and_then (stageAndExport api ''png'' markdown theme ctx)
       (\<lambda>_ w.
          let slidesExportDir = path_join [executionDir ctx, ''slides-export''] in
          case readdirSync api slidesExportDir (os w) of
            Inl error \<Rightarrow> (Inl error, w)
          | Inr names \<Rightarrow>
              (case readImages api slidesExportDir (pngFiles api names) (os w) of
                 Inl error \<Rightarrow> (Inl error, w)
               | Inr contentArray \<Rightarrow>
                   (Inr (TextPart (executionId ctx)
                         # TextPart (JSON_stringify_params markdown theme)
                         # contentArray), w)))"

text \<open>The handler: the \<open>try\<close> block and its \<open>catch\<close>.  The \<open>finally\<close> block is
  empty.\<close>

definition generateSlide ::
  "'os node_api \<Rightarrow> string \<Rightarrow> string option \<Rightarrow> 'os world \<Rightarrow> content list \<times> 'os world" where
  "generateSlide api markdown theme_arg w =
     (case begin_invocation api w of
        (ctx, w1) \<Rightarrow>
          (case generateSlide_try api markdown (themeOrDefault theme_arg) ctx w1 of
             (Inr result, w') \<Rightarrow> (result, w')
           | (Inl error, w') \<Rightarrow>
               ([TextPart (''Failed to generate slides: '' @ errorMessage error)], w')))"

definition generateSlidePDF_try ::
  "'os node_api \<Rightarrow> string \<Rightarrow> string \<Rightarrow> invocation \<Rightarrow> ('os, content list) action" where
  "generateSlidePDF_try api markdown theme ctx =
     and_then (stageAndExport api ''pdf'' markdown theme ctx)
       (\<lambda>_ w.
          let pdfPath = path_join [executionDir ctx, ''slides-export.pdf''];
              fileUrl = ''file://'' @ pdfPath
          in case readFileSync api pdfPath (os w) of
               Inl error \<Rightarrow> (Inl error, w)
             | Inr pdfBuffer \<Rightarrow>
                 (Inr [ResourcePart fileUrl (toString_base64 pdfBuffer) ''application/pdf''], w))"

definition generateSlidePDF ::
  "'os node_api \<Rightarrow> string \<Rightarrow> string option \<Rightarrow> 'os world \<Rightarrow> content list \<times> 'os world" where
  "generateSlidePDF api markdown theme_arg w =
     (case begin_invocation api w of
        (ctx, w1) \<Rightarrow>
          (case generateSlidePDF_try api markdown (themeOrDefault theme_arg) ctx w1 of
             (Inr result, w') \<Rightarrow> (result, w')
           | (Inl error, w') \<Rightarrow>
               ([TextPart (''Failed to generate PDF: '' @ errorMessage error)], w')))"

definition pptxMimeType :: string where
  "pptxMimeType =
     ''application/vnd.openxmlformats-officedocument.presentationml.presentation''"

definition generateSlidePPTX_try ::
  "'os node_api \<Rightarrow> string \<Rightarrow> string \<Rightarrow> invocation \<Rightarrow> ('os, content list) action" where
  "generateSlidePPTX_try api markdown theme ctx =
     and_then (stageAndExport api ''pptx'' markdown theme ctx)
       (\<lambda>_ w.
          let pptxPath = path_join [executionDir ctx, ''slides-export.pptx''];
              relativePptxPath = path_relative (process_cwd api (os w)) (workDir ctx) pptxPath;
              fileUrl = ''file://'' @ relativePptxPath
          in case readFileSync api pptxPath (os w) of
               Inl error \<Rightarrow> (Inl error, w)
             | Inr pptxBuffer \<Rightarrow>
                 (Inr [ResourcePart fileUrl (toString_base64 pptxBuffer) pptxMimeType], w))"

definition generateSlidePPTX ::
  "'os node_api \<Rightarrow> string \<Rightarrow> string option \<Rightarrow> 'os world \<Rightarrow> content list \<times> 'os world" where
  "generateSlidePPTX api markdown theme_arg w =
     (case begin_invocation api w of
        (ctx, w1) \<Rightarrow>
          (case generateSlidePPTX_try api markdown (themeOrDefault theme_arg) ctx w1 of
             (Inr result, w') \<Rightarrow> (result, w')
           | (Inl error, w') \<Rightarrow>
               ([TextPart (''Failed to generate PPTX: '' @ errorMessage error)], w')))"

section \<open>Input schema and dispatch\<close>

text \<open>
  A tool is called with a JSON object.  Of a property only this matters: it is absent,
  a string, or some other value.  The three tools declare the same schema:
  \<open>markdown\<close> a string, \<open>theme\<close> one of five strings, optional, \<open>"default"\<close> when
  absent.  The server runs a handler on the parsed arguments only.
\<close>

datatype jsvalue = Undefined | JString string | JOther

record arguments =
  arg_markdown :: jsvalue
  arg_theme :: jsvalue

definition themes :: "string list" where
  "themes = [''default'', ''bricks'', ''apple-basic'', ''seriph'', ''shibainu'']"

fun parse_markdown :: "jsvalue \<Rightarrow> string option" where
  "parse_markdown (JString s) = Some s"
| "parse_markdown _ = None"

fun parse_theme :: "jsvalue \<Rightarrow> string option" where
  "parse_theme Undefined = Some ''default''"
| "parse_theme (JString s) = (if s \<in> set themes then Some s else None)"
| "parse_theme JOther = None"

definition inputSchema_parse :: "arguments \<Rightarrow> (string \<times> string) option" where
  "inputSchema_parse args =
     (case parse_markdown (arg_markdown args) of
        None \<Rightarrow> None
      | Some markdown \<Rightarrow>
          (case parse_theme (arg_theme args) of
             None \<Rightarrow> None
           | Some theme \<Rightarrow> Some (markdown, theme)))"

datatype tool = GenerateSlide | GenerateSlidePDF | GenerateSlidePPTX

fun handler ::
  "tool \<Rightarrow> 'os node_api \<Rightarrow> string \<Rightarrow> string option \<Rightarrow> 'os world \<Rightarrow> content list \<times> 'os world" where
  "handler GenerateSlide = generateSlide"
| "handler GenerateSlidePDF = generateSlidePDF"
| "handler GenerateSlidePPTX = generateSlidePPTX"

fun exportFormat :: "tool \<Rightarrow> string" where
  "exportFormat GenerateSlide = ''png''"
| "exportFormat GenerateSlidePDF = ''pdf''"
| "exportFormat GenerateSlidePPTX = ''pptx''"

text \<open>What each tool reads back from the execution directory.\<close>

fun outputName :: "tool \<Rightarrow> string" where
  "outputName GenerateSlide = ''slides-export''"
| "outputName GenerateSlidePDF = ''slides-export.pdf''"
| "outputName GenerateSlidePPTX = ''slides-export.pptx''"

text \<open>The text each \<open>catch\<close> block puts before the error message.\<close>

fun failurePrefix :: "tool \<Rightarrow> string" where
  "failurePrefix GenerateSlide = ''Failed to generate slides: ''"
| "failurePrefix GenerateSlidePDF = ''Failed to generate PDF: ''"
| "failurePrefix GenerateSlidePPTX = ''Failed to generate PPTX: ''"

text \<open>The \<open>try\<close> block of each tool.\<close>

fun tryBlock ::
  "tool \<Rightarrow> 'os node_api \<Rightarrow> string \<Rightarrow> string \<Rightarrow> invocation \<Rightarrow> ('os, content list) action" where
  "tryBlock GenerateSlide = generateSlide_try"
| "tryBlock GenerateSlidePDF = generateSlidePDF_try"
| "tryBlock GenerateSlidePPTX = generateSlidePPTX_try"

text \<open>\<open>None\<close>: the arguments were rejected and no handler ran.\<close>

definition callTool ::
  "'os node_api \<Rightarrow> tool \<Rightarrow> arguments \<Rightarrow> 'os world \<Rightarrow> content list option \<times> 'os world" where
  "callTool api t args w =
     (case inputSchema_parse args of
        None \<Rightarrow> (None, w)
      | Some (markdown, theme) \<Rightarrow>
          (case handler t api markdown (Some theme) w of
             (result, w') \<Rightarrow> (Some result, w')))"

section \<open>A small host to run the handlers on\<close>

text \<open>
  Directories with their listings, files with their bytes, a counter from which
  \<open>randomUUID\<close> makes its next identifier, and a renderer given as a function.
\<close>

record sim_os =
  sim_cwd :: string
  sim_next :: nat
  sim_dirs :: "(string \<times> string list) list"
  sim_files :: "(string \<times> byte list) list"

text \<open>The identifiers of that host: \<open>id-1\<close>, \<open>id-11\<close>, \<open>id-111\<close>, one for each
  value of the counter.\<close>

definition sim_uuid :: "nat \<Rightarrow> string" where
  "sim_uuid n = ''id-'' @ replicate (Suc n) CHR ''1''"

definition sim_api ::
  "(string \<Rightarrow> string \<Rightarrow> sim_os \<Rightarrow> (thrown + unit) \<times> sim_os) \<Rightarrow> sim_os node_api" where
  "sim_api renderer =
     \<lparr> process_cwd = sim_cwd,
       randomUUID = (\<lambda>s. (sim_uuid (sim_next s), s\<lparr>sim_next := Suc (sim_next s)\<rparr>)),
       existsSync = (\<lambda>path s. map_of (sim_dirs s) path \<noteq> None
                                \<or> map_of (sim_files s) path \<noteq> None),
       mkdirSync = (\<lambda>path s.
          if map_of (sim_files s) path \<noteq> None then (Inl (JsError ''EEXIST''), s)
          else if map_of (sim_dirs s) path \<noteq> None then (Inr (), s)
          else (Inr (), s\<lparr>sim_dirs := (path, []) # sim_dirs s\<rparr>)),
       writeFileSync = (\<lambda>path data s.
          if map_of (sim_dirs s) path \<noteq> None then (Inl (JsError ''EISDIR''), s)
          else (Inr (), s\<lparr>sim_files := (path, map (\<lambda>c. of_nat (of_char c)) data) # sim_files s\<rparr>)),
       execSync = renderer,
       readdirSync = (\<lambda>path s. case map_of (sim_dirs s) path of
                                  None \<Rightarrow> Inl (JsError ''ENOENT'')
                                | Some names \<Rightarrow> Inr names),
       readFileSync = (\<lambda>path s. case map_of (sim_files s) path of
                                   None \<Rightarrow> Inl (JsError ''ENOENT'')
                                 | Some bytes \<Rightarrow> Inr bytes),
       engine_sort = stableSort \<rparr>"

text \<open>A renderer that exports the named images, each with the given bytes.\<close>

definition render_images ::
  "string list \<Rightarrow> (string \<Rightarrow> byte list) \<Rightarrow> string \<Rightarrow> string \<Rightarrow> sim_os \<Rightarrow> (thrown + unit) \<times> sim_os" where
  "render_images names bytes command cwd s =
     (Inr (),
      s\<lparr>sim_dirs := (path_join [cwd, ''slides-export''], names) # sim_dirs s,
        sim_files := map (\<lambda>name. (path_join [cwd, ''slides-export'', name], bytes name)) names
                       @ sim_files s\<rparr>)"

text \<open>A renderer that writes one document, one that writes nothing, one that fails.\<close>

definition render_document ::
  "string \<Rightarrow> byte list \<Rightarrow> string \<Rightarrow> string \<Rightarrow> sim_os \<Rightarrow> (thrown + unit) \<times> sim_os" where
  "render_document name bytes command cwd s =
     (Inr (), s\<lparr>sim_files := (path_join [cwd, name], bytes) # sim_files s\<rparr>)"

definition render_nothing :: "string \<Rightarrow> string \<Rightarrow> sim_os \<Rightarrow> (thrown + unit) \<times> sim_os" where
  "render_nothing command cwd s = (Inr (), s)"

definition render_fails :: "string \<Rightarrow> string \<Rightarrow> string \<Rightarrow> sim_os \<Rightarrow> (thrown + unit) \<times> sim_os" where
  "render_fails message command cwd s = (Inl (JsError message), s)"

definition sim_start :: "sim_os world" where
  "sim_start =
     \<lparr> os = \<lparr> sim_cwd = ''/app'', sim_next = 0, sim_dirs = [], sim_files = [] \<rparr>,
       journal = [] \<rparr>"

definition sample_bytes :: "string \<Rightarrow> byte list" where
  "sample_bytes name = map (\<lambda>c. of_nat (of_char c)) name"

text \<open>The world after a first successful \<open>generateSlide\<close> on that host.\<close>

definition after_first :: "sim_os world" where
  "after_first =
     snd (generateSlide (sim_api (render_images [''1.png'', ''2.png''] sample_bytes))
            ''# Title'' None sim_start)"

section \<open>The mini-app (src/mcp-app.ts)\<close>

text \<open>
  The page: the two inputs, the three buttons, the two output elements, the variable
  \<open>currentExecutionId\<close>, the alerts shown, and the calls made through
  \<open>app.callServerTool\<close>.  The content of an element is the sequence of writes that
  produced it: text, markup, an image, or the box holding a data URL.  Console output is
  left out.  The elements the script looks up by identifier are taken to be on the
  page.  \<open>Request name markdown theme\<close> is a call of the named tool.
\<close>

datatype dom = TextNode string | Html string | Img string | UrlContainer string string

datatype request = Request string string string

record ui =
  markdownInput_value :: string
  themeSelect_value :: string
  regenerateBtn_disabled :: bool
  regenerateBtn_textContent :: string
  generatePdfBtn_disabled :: bool
  generatePdfBtn_textContent :: string
  generatePptxBtn_disabled :: bool
  generatePptxBtn_textContent :: string
  slidesContainer :: "dom list"
  pdfStatusDiv :: "dom list"
  currentExecutionId :: "string option"
  alerts :: "string list"
  serverCalls :: "request list"

record call_result =
  isError :: bool
  result_content :: "content list"

text \<open>What awaiting \<open>app.callServerTool\<close> gives: a result, a rejection, or nothing
  ever.  In the last case the handler stays suspended at the \<open>await\<close>.\<close>

datatype outcome = Resolved call_result | Rejected thrown | Pending

datatype 'a run = Completed 'a | Suspended 'a

fun completed :: "'a run \<Rightarrow> 'a option" where
  "completed (Completed x) = Some x"
| "completed (Suspended x) = None"

fun suspended :: "'a run \<Rightarrow> 'a option" where
  "suspended (Completed x) = None"
| "suspended (Suspended x) = Some x"

fun imageElement :: "content \<Rightarrow> dom" where
  "imageElement (ImagePart data _) = Img (''data:image/png;base64,'' @ data)"
| "imageElement _ = Img []"

definition displaySlides :: "content list \<Rightarrow> ui \<Rightarrow> ui" where
  "displaySlides result u =
     (let images = filter isImage result in
      if images = [] then u\<lparr>slidesContainer := [TextNode ''[ERROR] No images found'']\<rparr>
      else u\<lparr>slidesContainer := slidesContainer u @ map imageElement images\<rparr>)"

text \<open>\<open>result.content?.[0]?.type === "text" ? result.content[0].text : "Unknown error"\<close>.\<close>

fun errorText :: "content list \<Rightarrow> string" where
  "errorText (TextPart text # _) = text"
| "errorText _ = ''Unknown error''"

text \<open>\<open>error instanceof Error ? error.message : "Unknown error"\<close>.\<close>

fun errorMsg :: "thrown \<Rightarrow> string" where
  "errorMsg (JsError message) = message"
| "errorMsg (NonError _) = ''Unknown error''"

definition handleRegenerate :: "(request \<Rightarrow> outcome) \<Rightarrow> ui \<Rightarrow> ui run" where
  "handleRegenerate callServerTool u =
     (let markdown = trim (markdownInput_value u);
          theme = themeSelect_value u
      in if markdown = [] then Completed (u\<lparr>alerts := alerts u @ [''Please populate markdown first'']\<rparr>)
         else
           let u1 = u\<lparr>regenerateBtn_disabled := True,
                      regenerateBtn_textContent := ''Regenerating...'',
                      slidesContainer := [Html ''Regenerating slides...'']\<rparr>;
               request = Request ''generateSlide'' markdown theme;
               u2 = u1\<lparr>serverCalls := serverCalls u1 @ [request]\<rparr>;
               finally = (\<lambda>v. v\<lparr>regenerateBtn_disabled := False,
                                  regenerateBtn_textContent := ''Regenerate with Theme''\<rparr>);
               catch = (\<lambda>error v. v\<lparr>slidesContainer := [TextNode (''Error: '' @ errorMsg error)]\<rparr>)
           in case callServerTool request of
                Pending \<Rightarrow> Suspended u2
              | Rejected error \<Rightarrow> Completed (finally (catch error u2))
              | Resolved slideResult \<Rightarrow>
                  if isError slideResult
                  then Completed (finally (catch (JsError (errorText (result_content slideResult))) u2))
                  else Completed (finally (displaySlides (result_content slideResult) u2)))"

text \<open>The part of the two export handlers after the result has arrived without an
  error flag: find the resource, check its blob, show the data URL.  \<open>Inl\<close> is the
  thrown error.\<close>

definition showDocument :: "string \<Rightarrow> string \<Rightarrow> string \<Rightarrow> content list \<Rightarrow> ui \<Rightarrow> thrown + ui" where
  "showDocument kind mimeType label result u =
     (case filter isResource result of
        ResourcePart uri blob mime # _ \<Rightarrow>
          if blob = [] then Inl (JsError (''Invalid '' @ kind @ '' data''))
          else Inr (u\<lparr>pdfStatusDiv := pdfStatusDiv u
                        @ [UrlContainer label (''data:'' @ mimeType @ '';base64,'' @ blob)]\<rparr>)
      | _ \<Rightarrow> Inl (JsError (''No '' @ kind @ '' resource found in response'')))"

definition handleGeneratePdf :: "(request \<Rightarrow> outcome) \<Rightarrow> ui \<Rightarrow> ui run" where
  "handleGeneratePdf callServerTool u =
     (if currentExecutionId u = None \<or> currentExecutionId u = Some []
      then Completed (u\<lparr>alerts := alerts u @ [''Please generate slides first'']\<rparr>)
      else
        let u1 = u\<lparr>generatePdfBtn_disabled := True,
                   generatePdfBtn_textContent := ''Generating PDF...'',
                   pdfStatusDiv := [TextNode ''Generating PDF...'']\<rparr>;
            finally = (\<lambda>v. v\<lparr>generatePdfBtn_disabled := False,
                               generatePdfBtn_textContent := ''Generate PDF''\<rparr>);
            catch = (\<lambda>error v. v\<lparr>pdfStatusDiv := pdfStatusDiv v
                        @ [Html (''<br><strong>Exception:</strong> '' @ errorMsg error)]\<rparr>);
            markdown = trim (markdownInput_value u1);
            theme = themeSelect_value u1
        in if markdown = []
           then Completed (finally (u1\<lparr>pdfStatusDiv := [TextNode ''Please populate markdown first'']\<rparr>))
           else
             let request = Request ''generateSlidePDF'' markdown theme;
                 u2 = u1\<lparr>pdfStatusDiv := [Html (''<strong>Generating PDF with theme: '' @ theme @ ''</strong>'')],
                         serverCalls := serverCalls u1 @ [request]\<rparr>
             in case callServerTool request of
                  Pending \<Rightarrow> Suspended u2
                | Rejected error \<Rightarrow> Completed (finally (catch error u2))
                | Resolved pdfResult \<Rightarrow>
                    if isError pdfResult
                    then
                      let text = errorText (result_content pdfResult);
                          u3 = u2\<lparr>pdfStatusDiv := pdfStatusDiv u2
                                  @ [Html (''<br><strong>Error:</strong> '' @ text)]\<rparr>
                      in Completed (finally (catch (JsError text) u3))
                    else
                      (case showDocument ''PDF'' ''application/pdf''
                              ''PDF Data URL (copy and paste into browser address bar):''
                              (result_content pdfResult) u2 of
                         Inl error \<Rightarrow> Completed (finally (catch error u2))
                       | Inr u3 \<Rightarrow> Completed (finally u3)))"

definition handleGeneratePptx :: "(request \<Rightarrow> outcome) \<Rightarrow> ui \<Rightarrow> ui run" where
  "handleGeneratePptx callServerTool u =
     (let u1 = u\<lparr>generatePptxBtn_disabled := True,
                 generatePptxBtn_textContent := ''Generating PPTX...'',
                 pdfStatusDiv := [Html (''<br><strong>Generating PPTX with theme: ''
                                         @ themeSelect_value u @ ''</strong>'')]\<rparr>;
          finally = (\<lambda>v. v\<lparr>generatePptxBtn_disabled := False,
                             generatePptxBtn_textContent := ''Generate PPTX''\<rparr>);
          catch = (\<lambda>error v. v\<lparr>pdfStatusDiv := pdfStatusDiv v
                      @ [Html (''<br><strong>Exception:</strong> '' @ errorMsg error)]\<rparr>);
          markdown = trim (markdownInput_value u1);
          theme = themeSelect_value u1
      in if markdown = []
         then Completed (finally (u1\<lparr>pdfStatusDiv := pdfStatusDiv u1
                                      @ [Html ''<br>Please populate markdown first'']\<rparr>))
         else
           let request = Request ''generateSlidePPTX'' markdown theme;
               u2 = u1\<lparr>serverCalls := serverCalls u1 @ [request]\<rparr>
           in case callServerTool request of
                Pending \<Rightarrow> Suspended u2
              | Rejected error \<Rightarrow> Completed (finally (catch error u2))
              | Resolved pptxResult \<Rightarrow>
                  if isError pptxResult
                  then
                    let text = errorText (result_content pptxResult);
                        u3 = u2\<lparr>pdfStatusDiv := pdfStatusDiv u2
                                @ [Html (''<br><strong>Error:</strong> '' @ text)]\<rparr>
                    in Completed (finally (catch (JsError text) u3))
                  else
                    (case showDocument ''PPTX'' pptxMimeType
                            ''PPTX Data URL (copy and paste into browser address bar):''
                            (result_content pptxResult) u2 of
                       Inl error \<Rightarrow> Completed (finally (catch error u2))
                     | Inr u3 \<Rightarrow> Completed (finally u3)))"

definition sample_ui :: ui where
  "sample_ui =
     \<lparr> markdownInput_value = ''# Title'', themeSelect_value = ''seriph'',
       regenerateBtn_disabled = False, regenerateBtn_textContent = ''Regenerate with Theme'',
       generatePdfBtn_disabled = False, generatePdfBtn_textContent = ''Generate PDF'',
       generatePptxBtn_disabled = False, generatePptxBtn_textContent = ''Generate PPTX'',
       slidesContainer = [], pdfStatusDiv = [], currentExecutionId = Some ''id-1'',
       alerts = [], serverCalls = [] \<rparr>"

text \<open>The same page with only white space in the markdown field, and a server call
  that is rejected.\<close>

definition blank_ui :: ui where
  "blank_ui = sample_ui\<lparr>markdownInput_value := [CHR '' '', CHR 0x0A, CHR 0x09]\<rparr>"

definition failing_call :: "request \<Rightarrow> outcome" where
  "failing_call request = Rejected (JsError ''Connection closed'')"

text \<open>The page with its three buttons disabled, as during a run, and a server call that
  never settles.\<close>

definition busy_ui :: ui where
  "busy_ui = sample_ui\<lparr>regenerateBtn_disabled := True, generatePdfBtn_disabled := True,
                         generatePptxBtn_disabled := True\<rparr>"

definition pending_call :: "request \<Rightarrow> outcome" where
  "pending_call request = Pending"

section \<open>Numbered image files\<close>







section \<open>Fresh identifiers\<close>

text \<open>
  What is taken of \<open>randomUUID\<close>: it never returns an identifier it has returned
  before.  \<open>issued\<close> gives, for a state of the host, the identifiers returned so far;
  \<open>randomUUID\<close> returns one outside that set and adds it, and no other primitive
  removes any.
\<close>

definition freshIdentifiers :: "'os node_api \<Rightarrow> ('os \<Rightarrow> string set) \<Rightarrow> bool" where
  "freshIdentifiers api issued =
     ((\<forall>s. fst (randomUUID api s) \<notin> issued s
           \<and> insert (fst (randomUUID api s)) (issued s) \<subseteq> issued (snd (randomUUID api s)))
      \<and> (\<forall>path s. issued s \<subseteq> issued (snd (mkdirSync api path s)))
      \<and> (\<forall>path data s. issued s \<subseteq> issued (snd (writeFileSync api path data s)))
      \<and> (\<forall>command cwd s. issued s \<subseteq> issued (snd (execSync api command cwd s))))"

definition sim_issued :: "sim_os \<Rightarrow> string set" where
  "sim_issued s = sim_uuid ` {..< sim_next s}"

section \<open>Well-formed paths\<close>

text \<open>
  A clean segment is a file name that normalisation leaves alone.  The current
  directory of a process is an absolute path of clean segments; \<open>absolutePath []\<close> is
  the root.
\<close>

definition cleanSegment :: "string \<Rightarrow> bool" where
  "cleanSegment seg = (seg \<noteq> [] \<and> CHR ''/'' \<notin> set seg \<and> seg \<noteq> ''.'' \<and> seg \<noteq> ''..'')"

definition absolutePath :: "string list \<Rightarrow> string" where
  "absolutePath segs = ''/'' @ joinSegments segs"

section \<open>Strings and Numbers\<close>

lemma split_str_nonempty: "split_str sep s \<noteq> []"
  by (induction s) (auto split: list.splits)















section \<open>The sort\<close>

lemma mset_insert_by: "mset (insert_by cmp x ys) = add_mset x (mset ys)"
  by (induction ys) auto

lemma mset_stableSort: "mset (stableSort cmp xs) = mset xs"
  by (induction xs) (simp_all add: stableSort_def mset_insert_by)

lemma mset_arraySort: "mset (arraySort engine cmp xs) = mset xs"
  by (simp add: arraySort_def mset_stableSort)







lemma mset_pngFiles: "mset (pngFiles api names) = mset (filter (\<lambda>f. endsWith f ''.png'') names)"
  by (simp add: pngFiles_def mset_arraySort)


lemma pngFiles_none:
  "filter (\<lambda>f. endsWith f ''.png'') names = [] \<Longrightarrow> pngFiles api names = []"
  using mset_pngFiles [of api names] by simp







section \<open>Paths\<close>

lemma split_str_append:
  "split_str sep (a @ sep # b) = split_str sep a @ split_str sep b"
proof (induction a)
  case Nil
  then show ?case by simp
next
  case (Cons c a)
  obtain p ps where "split_str sep a = p # ps"
    using split_str_nonempty [of sep a] by (cases "split_str sep a") auto
  with Cons show ?case by simp
qed

lemma split_str_no_sep: "sep \<notin> set s \<Longrightarrow> split_str sep s = [s]"
  by (induction s) auto

lemma split_joinSegments:
  "segs \<noteq> [] \<Longrightarrow> \<forall>s \<in> set segs. CHR ''/'' \<notin> set s \<Longrightarrow>
   split_str CHR ''/'' (joinSegments segs) = segs"
proof (induction segs rule: joinSegments.induct)
  case 1
  then show ?case by simp
next
  case (2 seg)
  then show ?case by (simp add: split_str_no_sep)
next
  case (3 seg v va)
  then show ?case by (simp add: split_str_append split_str_no_sep)
qed

lemma normalizeSegments_clean:
  "\<forall>s \<in> set segs. cleanSegment s \<Longrightarrow> normalizeSegments allow res segs = res @ segs"
  by (induction segs arbitrary: res) (auto simp: cleanSegment_def)

lemma normalizeSegments_append:
  "normalizeSegments allow res (xs @ ys) = normalizeSegments allow (normalizeSegments allow res xs) ys"
  by (induction xs arbitrary: res) auto

lemma clean_no_slash: "cleanSegment s \<Longrightarrow> CHR ''/'' \<notin> set s"
  by (simp add: cleanSegment_def)

lemma split_absolutePath:
  assumes "\<forall>s \<in> set segs. cleanSegment s"
  shows "normalizeSegments False [] (split_str CHR ''/'' (absolutePath segs)) = segs"
proof (cases "segs = []")
  case True
  then show ?thesis by (simp add: absolutePath_def)
next
  case False
  have "split_str CHR ''/'' (joinSegments segs) = segs"
    using False assms by (intro split_joinSegments) (auto dest: clean_no_slash)
  then have "split_str CHR ''/'' (absolutePath segs) = [] # segs"
    by (simp add: absolutePath_def)
  then show ?thesis using assms by (simp add: normalizeSegments_clean)
qed

lemma joinSegments_snoc_nonempty: "x \<noteq> [] \<Longrightarrow> joinSegments (segs @ [x]) \<noteq> []"
  by (induction segs rule: joinSegments.induct) auto

lemma joinSegments_last: "x \<noteq> [] \<Longrightarrow> last (joinSegments (segs @ [x])) = last x"
proof (induction segs rule: joinSegments.induct)
  case 1
  then show ?case by simp
next
  case (2 seg)
  then show ?case by simp
next
  case (3 seg v va)
  then show ?case using joinSegments_snoc_nonempty [of x "v # va"] by simp
qed

lemma path_join_absolute:
  assumes "\<forall>s \<in> set segs. cleanSegment s" and "cleanSegment x"
  shows "path_join [absolutePath segs, x] = absolutePath (segs @ [x])"
proof -
  let ?joined = "absolutePath segs @ CHR ''/'' # x"
  have x: "x \<noteq> []" "CHR ''/'' \<notin> set x"
    using assms(2) by (auto simp: cleanSegment_def)
  then have lastx: "last x \<noteq> CHR ''/''" using last_in_set [of x] by metis
  have "split_str CHR ''/'' ?joined = split_str CHR ''/'' (absolutePath segs) @ [x]"
    by (simp add: split_str_append split_str_no_sep x)
  then have "normalizeSegments False [] (split_str CHR ''/'' ?joined)
               = normalizeSegments False
                   (normalizeSegments False [] (split_str CHR ''/'' (absolutePath segs))) [x]"
    by (simp only: normalizeSegments_append)
  also have "\<dots> = normalizeSegments False segs [x]"
    by (simp only: split_absolutePath [OF assms(1)])
  also have "\<dots> = segs @ [x]"
    by (rule normalizeSegments_clean) (simp add: assms(2))
  finally have segs: "normalizeSegments False [] (split_str CHR ''/'' ?joined) = segs @ [x]" .
  have abs: "isAbsolute ?joined" by (simp add: isAbsolute_def absolutePath_def)
  have last: "last ?joined \<noteq> CHR ''/''" using x lastx by simp
  have "path_normalize ?joined = ''/'' @ joinSegments (segs @ [x])"
    using abs last segs joinSegments_snoc_nonempty [OF x(1), of segs]
    by (simp add: path_normalize_def Let_def)
  moreover have "path_join [absolutePath segs, x] = path_normalize ?joined"
    using x by (simp add: path_join_def absolutePath_def)
  ultimately show ?thesis by (simp add: absolutePath_def)
qed

lemma resolveSegments_absolute:
  assumes "\<forall>s \<in> set segs. cleanSegment s"
  shows "resolveSegments cwd (absolutePath segs) = segs"
  using split_absolutePath [OF assms]
  by (simp add: resolveSegments_def isAbsolute_def absolutePath_def)

lemma dropCommonPrefix_append: "dropCommonPrefix xs (xs @ ys) = ([], ys)"
proof (induction xs)
  case Nil
  then show ?case by (cases ys) simp_all
next
  case (Cons x xs)
  then show ?case by simp
qed

lemma path_relative_below:
  assumes "\<forall>s \<in> set xs. cleanSegment s" and "\<forall>s \<in> set ys. cleanSegment s"
  shows "path_relative cwd (absolutePath xs) (absolutePath (xs @ ys)) = joinSegments ys"
proof -
  have "\<forall>s \<in> set (xs @ ys). cleanSegment s" using assms by auto
  then have "resolveSegments cwd (absolutePath (xs @ ys)) = xs @ ys"
    by (rule resolveSegments_absolute)
  then show ?thesis
    using resolveSegments_absolute [OF assms(1), of cwd]
    by (simp add: path_relative_def dropCommonPrefix_append)
qed

section \<open>Base64\<close>

lemma index_of_nth:
  "distinct xs \<Longrightarrow> n < length xs \<Longrightarrow> index_of (xs ! n) xs = Some n"
proof (induction xs arbitrary: n)
  case Nil
  then show ?case by simp
next
  case (Cons x xs)
  show ?case
  proof (cases n)
    case 0
    then show ?thesis by simp
  next
    case (Suc m)
    with Cons.prems have "xs ! m \<noteq> x" by auto
    with Suc Cons show ?thesis by simp
  qed
qed

lemma distinct_base64_alphabet: "distinct base64_alphabet"
  by (simp add: base64_alphabet_def)

lemma length_base64_alphabet: "length base64_alphabet = 64"
  by (simp add: base64_alphabet_def)

lemma sextet_base64_char: "n < 64 \<Longrightarrow> sextet (base64_char n) = Some n"
  by (simp add: sextet_def base64_char_def index_of_nth distinct_base64_alphabet
        length_base64_alphabet)

lemma base64_char_not_pad: "n < 64 \<Longrightarrow> base64_char n \<noteq> CHR ''=''"
proof -
  assume "n < 64"
  then have "base64_char n \<in> set base64_alphabet"
    by (simp add: base64_char_def length_base64_alphabet)
  moreover have "CHR ''='' \<notin> set base64_alphabet"
    by (simp add: base64_alphabet_def)
  ultimately show ?thesis by metis
qed

lemma byte_parts:
  fixes a :: byte and b :: byte
  shows "unat a div 4 < 64" and "unat a mod 4 * 16 < 64" and "unat a mod 16 * 4 < 64"
    and "unat a mod 64 < 64"
    and "unat a mod 4 * 16 + unat b div 16 < 64"
    and "unat a mod 16 * 4 + unat b div 64 < 64"
proof -
  have a: "unat a < 256" using unsigned_less [of a] by simp
  have b: "unat b < 256" using unsigned_less [of b] by simp
  show "unat a div 4 < 64" using a by arith
  show "unat a mod 4 * 16 < 64" by arith
  show "unat a mod 16 * 4 < 64" by arith
  show "unat a mod 64 < 64" by arith
  show "unat a mod 4 * 16 + unat b div 16 < 64" using b by arith
  show "unat a mod 16 * 4 + unat b div 64 < 64" using b by arith
qed

lemma div_mod_digits:
  fixes q r n :: nat
  assumes "r < n"
  shows "(q * n + r) div n = q" and "(q * n + r) mod n = r"
  using assms by simp_all

lemma byte_recombine:
  fixes a :: byte and b :: byte and c :: byte
  shows "byte1 (unat a div 4) (unat a mod 4 * 16 + unat b div 16) = a"
    and "byte2 (unat a mod 4 * 16 + unat b div 16) (unat b mod 16 * 4 + unat c div 64) = b"
    and "byte3 (unat b mod 16 * 4 + unat c div 64) (unat c mod 64) = c"
    and "byte1 (unat a div 4) (unat a mod 4 * 16) = a"
    and "byte2 (unat a mod 4 * 16 + unat b div 16) (unat b mod 16 * 4) = b"
proof -
  have "unat b < 256" using unsigned_less [of b] by simp
  then have b16: "unat b div 16 < 16" by simp
  have "unat c < 256" using unsigned_less [of c] by simp
  then have c64: "unat c div 64 < 4" by simp
  have hi_a: "(unat a mod 4 * 16 + unat b div 16) div 16 = unat a mod 4"
    using b16 by (rule div_mod_digits(1))
  have lo_a: "(unat a mod 4 * 16 + unat b div 16) mod 16 = unat b div 16"
    using b16 by (rule div_mod_digits(2))
  have hi_b: "(unat b mod 16 * 4 + unat c div 64) div 4 = unat b mod 16"
    using c64 by (rule div_mod_digits(1))
  have lo_b: "(unat b mod 16 * 4 + unat c div 64) mod 4 = unat c div 64"
    using c64 by (rule div_mod_digits(2))
  have hi_a0: "(unat a mod 4 * 16) div 16 = unat a mod 4" by simp
  have hi_b0: "(unat b mod 16 * 4) div 4 = unat b mod 16" by simp
  show "byte1 (unat a div 4) (unat a mod 4 * 16 + unat b div 16) = a"
    unfolding byte1_def hi_a by simp
  show "byte2 (unat a mod 4 * 16 + unat b div 16) (unat b mod 16 * 4 + unat c div 64) = b"
    unfolding byte2_def lo_a hi_b by simp
  show "byte3 (unat b mod 16 * 4 + unat c div 64) (unat c mod 64) = c"
    unfolding byte3_def lo_b by simp
  show "byte1 (unat a div 4) (unat a mod 4 * 16) = a"
    unfolding byte1_def hi_a0 by simp
  show "byte2 (unat a mod 4 * 16 + unat b div 16) (unat b mod 16 * 4) = b"
    unfolding byte2_def lo_a hi_b0 by simp
qed

lemma decode_quad:
  assumes "s1 < 64" "s2 < 64" "s3 < 64" "s4 < 64"
  shows "base64_decode (base64_char s1 # base64_char s2 # base64_char s3 # base64_char s4 # rest)
           = map_option (\<lambda>bytes. byte1 s1 s2 # byte2 s2 s3 # byte3 s3 s4 # bytes)
               (base64_decode rest)"
  using assms by (simp add: sextet_base64_char base64_char_not_pad)

lemma decode_pad1:
  assumes "s1 < 64" "s2 < 64" "s3 < 64"
  shows "base64_decode [base64_char s1, base64_char s2, base64_char s3, CHR ''='']
           = Some [byte1 s1 s2, byte2 s2 s3]"
  using assms by (simp add: sextet_base64_char base64_char_not_pad)

lemma decode_pad2:
  assumes "s1 < 64" "s2 < 64"
  shows "base64_decode [base64_char s1, base64_char s2, CHR ''='', CHR ''='']
           = Some [byte1 s1 s2]"
  using assms by (simp add: sextet_base64_char)

lemma base64_roundtrip: "base64_decode (toString_base64 bytes) = Some bytes"
proof (induction bytes rule: toString_base64.induct)
  case 1
  then show ?case by simp
next
  case (2 a)
  show ?case
    by (simp only: toString_base64.simps decode_pad2 [OF byte_parts(1) byte_parts(2)]
          byte_recombine)
next
  case (3 a b)
  show ?case
    by (simp only: toString_base64.simps
          decode_pad1 [OF byte_parts(1) byte_parts(5) byte_parts(3)] byte_recombine)
next
  case (4 a b c rest)
  show ?case
    by (simp only: toString_base64.simps append_Cons append_Nil
          decode_quad [OF byte_parts(1) byte_parts(5) byte_parts(6) byte_parts(4)]
          byte_recombine "4.IH" option.map)
qed

section \<open>JSON\<close>







section \<open>The image response\<close>

lemma readImages_all:
  assumes "\<forall>f \<in> set files. readFileSync api (path_join [dir, f]) s = Inr (bytes f)"
  shows "readImages api dir files s
           = Inr (map (\<lambda>f. ImagePart (toString_base64 (bytes f)) ''image/png'') files)"
  using assms by (induction files) auto

lemma generateSlide_success:
  assumes "begin_invocation api w = (ctx, w1)"
      and "stageAndExport api ''png'' markdown (themeOrDefault theme_arg) ctx w1 = (Inr (), w2)"
      and "readdirSync api (path_join [executionDir ctx, ''slides-export'']) (os w2) = Inr names"
      and "\<forall>f \<in> set (pngFiles api names).
             readFileSync api (path_join [path_join [executionDir ctx, ''slides-export''], f]) (os w2)
               = Inr (bytes f)"
  shows "generateSlide api markdown theme_arg w
           = (TextPart (executionId ctx)
                # TextPart (JSON_stringify_params markdown (themeOrDefault theme_arg))
                # map (\<lambda>f. ImagePart (toString_base64 (bytes f)) ''image/png'') (pngFiles api names),
              w2)"
  using assms(1-3) readImages_all [OF assms(4)]
  by (simp add: generateSlide_def generateSlide_try_def and_then_def)




section \<open>The success envelope\<close>



section \<open>The document response\<close>

lemma document_success:
  assumes "begin_invocation api w = (ctx, w1)"
      and "stageAndExport api (exportFormat t) markdown (themeOrDefault theme_arg) ctx w1 = (Inr (), w2)"
      and "readFileSync api (path_join [executionDir ctx, outputName t]) (os w2) = Inr bytes"
  shows "t = GenerateSlidePDF \<Longrightarrow>
           fst (handler t api markdown theme_arg w)
             = [ResourcePart (''file://'' @ path_join [executionDir ctx, ''slides-export.pdf''])
                  (toString_base64 bytes) ''application/pdf'']"
    and "t = GenerateSlidePPTX \<Longrightarrow>
           fst (handler t api markdown theme_arg w)
             = [ResourcePart
                  (''file://'' @ path_relative (process_cwd api (os w2)) (workDir ctx)
                                   (path_join [executionDir ctx, ''slides-export.pptx'']))
                  (toString_base64 bytes) pptxMimeType]"
  using assms
  by (simp_all add: generateSlidePDF_def generateSlidePDF_try_def generateSlidePPTX_def
        generateSlidePPTX_try_def and_then_def Let_def)

text \<open>
  C4.  In a \<open>generateSlidePDF\<close> or \<open>generateSlidePPTX\<close> invocation whose renderer
  succeeded and whose output file (\<open>slides-export.pdf\<close>, \<open>slides-export.pptx\<close> in the
  execution directory) was read, the content is exactly one resource part, and decoding
  its blob from base64 gives back the bytes of that file.
\<close>

theorem document_blob_decodes_to_file:
  assumes "t = GenerateSlidePDF \<or> t = GenerateSlidePPTX"
      and "begin_invocation api w = (ctx, w1)"
      and "stageAndExport api (exportFormat t) markdown (themeOrDefault theme_arg) ctx w1 = (Inr (), w2)"
      and "readFileSync api (path_join [executionDir ctx, outputName t]) (os w2) = Inr bytes"
  shows "\<exists>uri blob mimeType.
           fst (handler t api markdown theme_arg w) = [ResourcePart uri blob mimeType]
           \<and> base64_decode blob = Some bytes"
  using assms(1) document_success [OF assms(2-4)] base64_roundtrip [of bytes]
  by auto

theorem document_blob_decodes_to_file_witness:
  "fst (handler GenerateSlidePDF (sim_api (render_document ''slides-export.pdf'' [37, 80, 68, 70, 255]))
          ''# Title'' None sim_start)
     = [ResourcePart ''file:///app/.slidev-work/id-1/slides-export.pdf'' ''JVBERv8='' ''application/pdf'']
   \<and> base64_decode ''JVBERv8='' = Some [37, 80, 68, 70, 255]
   \<and> fst (handler GenerateSlidePPTX (sim_api (render_document ''slides-export.pptx'' [80, 75, 3, 4]))
          ''# Title'' (Some ''bricks'') sim_start)
     = [ResourcePart ''file://id-1/slides-export.pptx'' ''UEsDBA=='' pptxMimeType]
   \<and> base64_decode ''UEsDBA=='' = Some [80, 75, 3, 4]"
proof -
  let ?api = "sim_api (render_document ''slides-export.pdf'' [37, 80, 68, 70, 255])"
  let ?b = "begin_invocation ?api sim_start"
  let ?st = "stageAndExport ?api (exportFormat GenerateSlidePDF) ''# Title'' (themeOrDefault None)
               (fst ?b) (snd ?b)"
  have h0: "GenerateSlidePDF = GenerateSlidePDF \<or> GenerateSlidePDF = GenerateSlidePPTX" by simp
  have h1: "?b = (fst ?b, snd ?b)" by simp
  have "fst ?st = Inr ()" by code_simp
  then have h2: "?st = (Inr (), snd ?st)" by (metis prod.collapse)
  have h3: "readFileSync ?api (path_join [executionDir (fst ?b), outputName GenerateSlidePDF])
              (os (snd ?st)) = Inr [37, 80, 68, 70, 255]"
    by code_simp
  have pdf: "fst (handler GenerateSlidePDF ?api ''# Title'' None sim_start)
     = [ResourcePart ''file:///app/.slidev-work/id-1/slides-export.pdf'' ''JVBERv8='' ''application/pdf'']"
    by code_simp
  let ?api' = "sim_api (render_document ''slides-export.pptx'' [80, 75, 3, 4])"
  let ?b' = "begin_invocation ?api' sim_start"
  let ?st' = "stageAndExport ?api' (exportFormat GenerateSlidePPTX) ''# Title''
                (themeOrDefault (Some ''bricks'')) (fst ?b') (snd ?b')"
  have k0: "GenerateSlidePPTX = GenerateSlidePDF \<or> GenerateSlidePPTX = GenerateSlidePPTX" by simp
  have k1: "?b' = (fst ?b', snd ?b')" by simp
  have "fst ?st' = Inr ()" by code_simp
  then have k2: "?st' = (Inr (), snd ?st')" by (metis prod.collapse)
  have k3: "readFileSync ?api' (path_join [executionDir (fst ?b'), outputName GenerateSlidePPTX])
              (os (snd ?st')) = Inr [80, 75, 3, 4]"
    by code_simp
  have pptx: "fst (handler GenerateSlidePPTX ?api' ''# Title'' (Some ''bricks'') sim_start)
     = [ResourcePart ''file://id-1/slides-export.pptx'' ''UEsDBA=='' pptxMimeType]"
    by code_simp
  from document_blob_decodes_to_file [OF h0 h1 h2 h3]
  obtain uri blob mimeType
    where r: "fst (handler GenerateSlidePDF ?api ''# Title'' None sim_start)
                = [ResourcePart uri blob mimeType]"
      and d: "base64_decode blob = Some [37, 80, 68, 70, 255]"
    by blast
  from r have blob: "blob = ''JVBERv8=''" unfolding pdf by simp
  have d1: "base64_decode ''JVBERv8='' = Some [37, 80, 68, 70, 255]"
    using d unfolding blob .
  from document_blob_decodes_to_file [OF k0 k1 k2 k3]
  obtain uri' blob' mimeType'
    where r': "fst (handler GenerateSlidePPTX ?api' ''# Title'' (Some ''bricks'') sim_start)
                = [ResourcePart uri' blob' mimeType']"
      and d': "base64_decode blob' = Some [80, 75, 3, 4]"
    by blast
  from r' have blob': "blob' = ''UEsDBA==''" unfolding pptx by simp
  have d2: "base64_decode ''UEsDBA=='' = Some [80, 75, 3, 4]"
    using d' unfolding blob' .
  show ?thesis
    using pdf d1 pptx d2 by (intro conjI)
qed

section \<open>The locator of a document\<close>

lemma begin_invocation_fields:
  assumes "begin_invocation api w = (ctx, w1)"
  shows "projectDir ctx = process_cwd api (os w)"
    and "workDir ctx = path_join [process_cwd api (os w), ''.slidev-work'']"
    and "executionId ctx = fst (randomUUID api (os w))"
    and "executionDir ctx = path_join [workDir ctx, executionId ctx]"
    and "w1 = w\<lparr>os := snd (randomUUID api (os w))\<rparr>"
  using assms by (auto simp: begin_invocation_def Let_def split: prod.splits)

lemma clean_literals:
  "cleanSegment ''.slidev-work''" "cleanSegment ''slides-export.pdf''"
  "cleanSegment ''slides-export.pptx''"
  by (simp_all add: cleanSegment_def)

text \<open>
  C5.  With the process in the directory \<open>absolutePath segs\<close> and a clean identifier,
  on the success path: \<open>generateSlidePDF\<close> gives the locator \<open>file://\<close> followed by the
  absolute path of the output file,
  \<^verbatim>\<open><cwd>/.slidev-work/<id>/slides-export.pdf\<close>; \<open>generateSlidePPTX\<close> gives
  \<open>file://\<close> followed by the path of its output file relative to the work directory,
  \<^verbatim>\<open><id>/slides-export.pptx\<close>.
\<close>

theorem document_uri:
  assumes "process_cwd api (os w) = absolutePath segs" and "\<forall>s \<in> set segs. cleanSegment s"
      and "begin_invocation api w = (ctx, w1)" and "cleanSegment (executionId ctx)"
      and "stageAndExport api (exportFormat t) markdown (themeOrDefault theme_arg) ctx w1 = (Inr (), w2)"
      and "readFileSync api (path_join [executionDir ctx, outputName t]) (os w2) = Inr bytes"
  shows "(t = GenerateSlidePDF \<longrightarrow>
            fst (handler t api markdown theme_arg w)
              = [ResourcePart
                   (''file://'' @ absolutePath (segs @ [''.slidev-work'', executionId ctx, ''slides-export.pdf'']))
                   (toString_base64 bytes) ''application/pdf''])
         \<and> (t = GenerateSlidePPTX \<longrightarrow>
            fst (handler t api markdown theme_arg w)
              = [ResourcePart (''file://'' @ executionId ctx @ ''/slides-export.pptx'')
                   (toString_base64 bytes) pptxMimeType])
         \<and> workDir ctx = absolutePath (segs @ [''.slidev-work''])
         \<and> isAbsolute (absolutePath (segs @ [''.slidev-work'', executionId ctx, ''slides-export.pdf'']))
         \<and> \<not> isAbsolute (executionId ctx @ ''/slides-export.pptx'')"
proof -
  have work: "workDir ctx = absolutePath (segs @ [''.slidev-work''])"
    using begin_invocation_fields(2) [OF assms(3)] assms(1,2)
    by (simp add: path_join_absolute clean_literals)
  have work_clean: "\<forall>s \<in> set (segs @ [''.slidev-work'']). cleanSegment s"
    using assms(2) by (simp add: clean_literals)
  have exec: "executionDir ctx = absolutePath (segs @ [''.slidev-work'', executionId ctx])"
    using begin_invocation_fields(4) [OF assms(3)] work
          path_join_absolute [OF work_clean assms(4)]
    by simp
  have exec_clean: "\<forall>s \<in> set (segs @ [''.slidev-work'', executionId ctx]). cleanSegment s"
    using assms(2,4) by (simp add: clean_literals)
  have pdf: "path_join [executionDir ctx, ''slides-export.pdf'']
               = absolutePath (segs @ [''.slidev-work'', executionId ctx, ''slides-export.pdf''])"
    using path_join_absolute [OF exec_clean clean_literals(2)] exec by simp
  have pptx: "path_join [executionDir ctx, ''slides-export.pptx'']
               = absolutePath ((segs @ [''.slidev-work'']) @ [executionId ctx, ''slides-export.pptx''])"
    using path_join_absolute [OF exec_clean clean_literals(3)] exec by simp
  have "\<forall>s \<in> set [executionId ctx, ''slides-export.pptx'']. cleanSegment s"
    using assms(4) by (simp add: clean_literals)
  then have rel: "path_relative (process_cwd api (os w2)) (workDir ctx)
                 (path_join [executionDir ctx, ''slides-export.pptx''])
               = joinSegments [executionId ctx, ''slides-export.pptx'']"
    unfolding pptx work using work_clean by (intro path_relative_below)
  have c1: "t = GenerateSlidePDF \<longrightarrow>
            fst (handler t api markdown theme_arg w)
              = [ResourcePart
                   (''file://'' @ absolutePath (segs @ [''.slidev-work'', executionId ctx, ''slides-export.pdf'']))
                   (toString_base64 bytes) ''application/pdf'']"
    using document_success(1) [OF assms(3,5,6)] by (simp add: pdf)
  have c2: "t = GenerateSlidePPTX \<longrightarrow>
            fst (handler t api markdown theme_arg w)
              = [ResourcePart (''file://'' @ executionId ctx @ ''/slides-export.pptx'')
                   (toString_base64 bytes) pptxMimeType]"
    using document_success(2) [OF assms(3,5,6)] by (simp add: rel)
  have c3: "isAbsolute (absolutePath (segs @ [''.slidev-work'', executionId ctx, ''slides-export.pdf'']))"
    by (simp add: isAbsolute_def absolutePath_def)
  have c4: "\<not> isAbsolute (executionId ctx @ ''/slides-export.pptx'')"
    using assms(4) by (cases "executionId ctx") (auto simp: isAbsolute_def cleanSegment_def)
  show ?thesis
    using c1 c2 c3 c4 work by blast
qed

theorem document_uri_witness:
  "fst (handler GenerateSlidePDF (sim_api (render_document ''slides-export.pdf'' [37, 80, 68, 70]))
          ''# Title'' None sim_start)
     = [ResourcePart ''file:///app/.slidev-work/id-1/slides-export.pdf''
          (toString_base64 [37, 80, 68, 70]) ''application/pdf'']
   \<and> fst (handler GenerateSlidePPTX (sim_api (render_document ''slides-export.pptx'' [80, 75, 3, 4]))
          ''# Title'' None sim_start)
     = [ResourcePart ''file://id-1/slides-export.pptx'' (toString_base64 [80, 75, 3, 4]) pptxMimeType]"
proof -
  let ?api = "sim_api (render_document ''slides-export.pdf'' [37, 80, 68, 70])"
  let ?b = "begin_invocation ?api sim_start"
  let ?st = "stageAndExport ?api (exportFormat GenerateSlidePDF) ''# Title'' (themeOrDefault None)
               (fst ?b) (snd ?b)"
  have g0: "process_cwd ?api (os sim_start) = absolutePath [''app'']" by code_simp
  have g1: "\<forall>s \<in> set [''app'']. cleanSegment s" by code_simp
  have h1: "?b = (fst ?b, snd ?b)" by simp
  have ident: "executionId (fst ?b) = ''id-1''" by code_simp
  have g2: "cleanSegment (executionId (fst ?b))" by code_simp
  have "fst ?st = Inr ()" by code_simp
  then have h2: "?st = (Inr (), snd ?st)" by (metis prod.collapse)
  have h3: "readFileSync ?api (path_join [executionDir (fst ?b), outputName GenerateSlidePDF])
              (os (snd ?st)) = Inr [37, 80, 68, 70]"
    by code_simp
  have p1: "''file://'' @ absolutePath ([''app''] @ [''.slidev-work'', ''id-1'', ''slides-export.pdf''])
              = ''file:///app/.slidev-work/id-1/slides-export.pdf''"
    by code_simp
  let ?api' = "sim_api (render_document ''slides-export.pptx'' [80, 75, 3, 4])"
  let ?b' = "begin_invocation ?api' sim_start"
  let ?st' = "stageAndExport ?api' (exportFormat GenerateSlidePPTX) ''# Title''
                (themeOrDefault None) (fst ?b') (snd ?b')"
  have k0: "process_cwd ?api' (os sim_start) = absolutePath [''app'']" by code_simp
  have k1: "?b' = (fst ?b', snd ?b')" by simp
  have ident': "executionId (fst ?b') = ''id-1''" by code_simp
  have k2g: "cleanSegment (executionId (fst ?b'))" by code_simp
  have "fst ?st' = Inr ()" by code_simp
  then have k2: "?st' = (Inr (), snd ?st')" by (metis prod.collapse)
  have k3: "readFileSync ?api' (path_join [executionDir (fst ?b'), outputName GenerateSlidePPTX])
              (os (snd ?st')) = Inr [80, 75, 3, 4]"
    by code_simp
  have p2: "''file://'' @ ''id-1'' @ ''/slides-export.pptx'' = ''file://id-1/slides-export.pptx''"
    by simp
  have first: "fst (handler GenerateSlidePDF ?api ''# Title'' None sim_start)
     = [ResourcePart ''file:///app/.slidev-work/id-1/slides-export.pdf''
          (toString_base64 [37, 80, 68, 70]) ''application/pdf'']"
    using document_uri [OF g0 g1 h1 g2 h2 h3] unfolding ident p1 by blast
  have second: "fst (handler GenerateSlidePPTX ?api' ''# Title'' None sim_start)
     = [ResourcePart ''file://id-1/slides-export.pptx'' (toString_base64 [80, 75, 3, 4]) pptxMimeType]"
    using document_uri [OF k0 g1 k1 k2g k2 k3] unfolding ident' p2 by blast
  show ?thesis using first second by (intro conjI)
qed

section \<open>What reaches the subprocess\<close>

lemma stageAndExport_journal:
  assumes "stageAndExport api format markdown theme ctx w1 = (outcome, w2)"
  shows "\<exists>new. journal w2 = journal w1 @ new
           \<and> (\<forall>command cwd. Exec command cwd \<in> set new \<longrightarrow>
                  command = slidevCommand (projectDir ctx) format theme \<and> cwd = executionDir ctx)
           \<and> (\<forall>path data. WriteFile path data \<in> set new \<longrightarrow>
                  path = path_join [executionDir ctx, ''slides.md''] \<and> data = markdown)
           \<and> (outcome = Inr () \<longrightarrow>
                  Exec (slidevCommand (projectDir ctx) format theme) (executionDir ctx) \<in> set new
                  \<and> WriteFile (path_join [executionDir ctx, ''slides.md'']) markdown \<in> set new)"
  using assms
  by (auto simp: stageAndExport_def stage_def and_then_def call_mkdirSync_def
        call_writeFileSync_def call_execSync_def
      split: prod.splits sum.splits if_splits)


lemma try_journal:
  shows "generateSlide_try api markdown theme ctx w1 = (r, w2) \<Longrightarrow>
           \<exists>outcome. stageAndExport api ''png'' markdown theme ctx w1 = (outcome, w2)"
    and "generateSlidePDF_try api markdown theme ctx w1 = (r, w2) \<Longrightarrow>
           \<exists>outcome. stageAndExport api ''pdf'' markdown theme ctx w1 = (outcome, w2)"
    and "generateSlidePPTX_try api markdown theme ctx w1 = (r, w2) \<Longrightarrow>
           \<exists>outcome. stageAndExport api ''pptx'' markdown theme ctx w1 = (outcome, w2)"
  by (auto simp: generateSlide_try_def generateSlidePDF_try_def generateSlidePPTX_try_def
        and_then_def Let_def split: prod.splits sum.splits)

lemma handler_stage:
  assumes "begin_invocation api w = (ctx, w1)"
  shows "\<exists>outcome. stageAndExport api (exportFormat t) markdown (themeOrDefault theme_arg) ctx w1
           = (outcome, snd (handler t api markdown theme_arg w))"
proof (cases t)
  case GenerateSlide
  obtain r w2 where r: "generateSlide_try api markdown (themeOrDefault theme_arg) ctx w1 = (r, w2)"
    by (cases "generateSlide_try api markdown (themeOrDefault theme_arg) ctx w1") auto
  then have "snd (handler t api markdown theme_arg w) = w2"
    using assms GenerateSlide by (simp add: generateSlide_def split: sum.splits)
  with try_journal(1) [OF r] GenerateSlide show ?thesis by simp
next
  case GenerateSlidePDF
  obtain r w2 where r: "generateSlidePDF_try api markdown (themeOrDefault theme_arg) ctx w1 = (r, w2)"
    by (cases "generateSlidePDF_try api markdown (themeOrDefault theme_arg) ctx w1") auto
  then have "snd (handler t api markdown theme_arg w) = w2"
    using assms GenerateSlidePDF by (simp add: generateSlidePDF_def split: sum.splits)
  with try_journal(2) [OF r] GenerateSlidePDF show ?thesis by simp
next
  case GenerateSlidePPTX
  obtain r w2 where r: "generateSlidePPTX_try api markdown (themeOrDefault theme_arg) ctx w1 = (r, w2)"
    by (cases "generateSlidePPTX_try api markdown (themeOrDefault theme_arg) ctx w1") auto
  then have "snd (handler t api markdown theme_arg w) = w2"
    using assms GenerateSlidePPTX by (simp add: generateSlidePPTX_def split: sum.splits)
  with try_journal(3) [OF r] GenerateSlidePPTX show ?thesis by simp
qed

text \<open>
  C10.  When the input schema accepts the arguments of a call, the theme it yields is
  one of the five listed strings; every \<open>execSync\<close> of the call runs the command built
  from the project directory, the tool's format and that theme, a string in which the
  markdown has no part; the markdown goes to \<open>writeFileSync\<close>, as the data of
  \<open>slides.md\<close> in the execution directory.  A theme outside the list is rejected, and
  then nothing runs.
\<close>

theorem command_from_validated_theme:
  assumes "inputSchema_parse args = Some (markdown, theme)"
      and "callTool api t args w = (result, w')"
      and "begin_invocation api w = (ctx, w1)"
  shows "theme \<in> {''default'', ''bricks'', ''apple-basic'', ''seriph'', ''shibainu''}
         \<and> arg_markdown args = JString markdown
         \<and> (\<exists>new. journal w' = journal w @ new
               \<and> (\<forall>command cwd. Exec command cwd \<in> set new \<longrightarrow>
                      command = slidevCommand (process_cwd api (os w)) (exportFormat t) theme)
               \<and> (\<forall>path data. WriteFile path data \<in> set new \<longrightarrow>
                      path = path_join [executionDir ctx, ''slides.md''] \<and> data = markdown))
         \<and> (\<forall>other. other \<notin> set themes \<longrightarrow>
               callTool api t (args\<lparr>arg_theme := JString other\<rparr>) w = (None, w))"
proof -
  have theme: "theme \<in> {''default'', ''bricks'', ''apple-basic'', ''seriph'', ''shibainu''}"
    using assms(1)
    by (cases "arg_theme args")
       (auto simp: inputSchema_parse_def themes_def split: option.splits if_splits)
  have md: "arg_markdown args = JString markdown"
    using assms(1)
    by (cases "arg_markdown args") (auto simp: inputSchema_parse_def split: option.splits)
  have w': "w' = snd (handler t api markdown (Some theme) w)"
    using assms(1,2) by (auto simp: callTool_def split: prod.splits)
  obtain outcome where st: "stageAndExport api (exportFormat t) markdown theme ctx w1 = (outcome, w')"
    using handler_stage [OF assms(3), of t markdown "Some theme"] w' by auto
  have j1: "journal w1 = journal w" and pd: "projectDir ctx = process_cwd api (os w)"
    using begin_invocation_fields [OF assms(3)] by simp_all
  from stageAndExport_journal [OF st] obtain new
    where "journal w' = journal w1 @ new"
      and "\<forall>command cwd. Exec command cwd \<in> set new \<longrightarrow>
             command = slidevCommand (projectDir ctx) (exportFormat t) theme \<and> cwd = executionDir ctx"
      and "\<forall>path data. WriteFile path data \<in> set new \<longrightarrow>
             path = path_join [executionDir ctx, ''slides.md''] \<and> data = markdown"
    by blast
  then have jr: "\<exists>new. journal w' = journal w @ new
               \<and> (\<forall>command cwd. Exec command cwd \<in> set new \<longrightarrow>
                      command = slidevCommand (process_cwd api (os w)) (exportFormat t) theme)
               \<and> (\<forall>path data. WriteFile path data \<in> set new \<longrightarrow>
                      path = path_join [executionDir ctx, ''slides.md''] \<and> data = markdown)"
    unfolding j1 pd by blast
  have rej: "\<forall>other. other \<notin> set themes \<longrightarrow>
               callTool api t (args\<lparr>arg_theme := JString other\<rparr>) w = (None, w)"
    by (auto simp: callTool_def inputSchema_parse_def split: option.splits)
  show ?thesis using theme md jr rej by blast
qed


theorem command_from_validated_theme_witness:
  "inputSchema_parse \<lparr>arg_markdown = JString ''# Title $(id)'', arg_theme = JString ''seriph''\<rparr>
     = Some (''# Title $(id)'', ''seriph'')
   \<and> ''seriph'' \<in> {''default'', ''bricks'', ''apple-basic'', ''seriph'', ''shibainu''}
   \<and> journal (snd (callTool (sim_api render_nothing) GenerateSlidePDF
                      \<lparr>arg_markdown = JString ''# Title $(id)'', arg_theme = JString ''seriph''\<rparr>
                      sim_start))
       = [Mkdir ''/app/.slidev-work'', Mkdir ''/app/.slidev-work/id-1'',
          WriteFile ''/app/.slidev-work/id-1/slides.md'' ''# Title $(id)'',
          Exec (slidevCommand ''/app'' ''pdf'' ''seriph'') ''/app/.slidev-work/id-1'']
   \<and> callTool (sim_api render_nothing) GenerateSlidePDF
        \<lparr>arg_markdown = JString ''# Title $(id)'', arg_theme = JString ''seriph; id''\<rparr> sim_start
       = (None, sim_start)"
proof -
  let ?args = "\<lparr>arg_markdown = JString ''# Title $(id)'', arg_theme = JString ''seriph''\<rparr>"
  let ?api = "sim_api render_nothing"
  let ?c = "callTool ?api GenerateSlidePDF ?args sim_start"
  let ?b = "begin_invocation ?api sim_start"
  have h1: "inputSchema_parse ?args = Some (''# Title $(id)'', ''seriph'')" by code_simp
  have h2: "?c = (fst ?c, snd ?c)" by simp
  have h3: "?b = (fst ?b, snd ?b)" by simp
  have j: "journal (snd ?c)
       = [Mkdir ''/app/.slidev-work'', Mkdir ''/app/.slidev-work/id-1'',
          WriteFile ''/app/.slidev-work/id-1/slides.md'' ''# Title $(id)'',
          Exec (slidevCommand ''/app'' ''pdf'' ''seriph'') ''/app/.slidev-work/id-1'']"
    by code_simp
  have other: "''seriph; id'' \<notin> set themes" by code_simp
  have upd: "?args\<lparr>arg_theme := JString ''seriph; id''\<rparr>
               = \<lparr>arg_markdown = JString ''# Title $(id)'', arg_theme = JString ''seriph; id''\<rparr>"
    by simp
  from command_from_validated_theme [OF h1 h2 h3]
  have member: "''seriph'' \<in> {''default'', ''bricks'', ''apple-basic'', ''seriph'', ''shibainu''}"
    and rejected: "\<forall>other. other \<notin> set themes \<longrightarrow>
               callTool ?api GenerateSlidePDF (?args\<lparr>arg_theme := JString other\<rparr>) sim_start
                 = (None, sim_start)"
    by blast+
  from rejected other
  have "callTool ?api GenerateSlidePDF (?args\<lparr>arg_theme := JString ''seriph; id''\<rparr>) sim_start
          = (None, sim_start)"
    by blast
  then have r: "callTool ?api GenerateSlidePDF
        \<lparr>arg_markdown = JString ''# Title $(id)'', arg_theme = JString ''seriph; id''\<rparr> sim_start
       = (None, sim_start)"
    unfolding upd .
  show ?thesis using h1 member j r by (intro conjI)
qed

section \<open>Repeated invocations\<close>

lemma sim_uuid_inj: "sim_uuid n = sim_uuid m \<Longrightarrow> n = m"
proof -
  assume "sim_uuid n = sim_uuid m"
  then have "length (sim_uuid n) = length (sim_uuid m)" by simp
  then show "n = m" by (simp add: sim_uuid_def)
qed

lemma sim_fresh:
  assumes "\<And>command cwd s. sim_next (snd (renderer command cwd s)) = sim_next s"
  shows "freshIdentifiers (sim_api renderer) sim_issued"
proof -
  have a: "sim_uuid (sim_next s) \<notin> sim_issued s" for s
    using sim_uuid_inj by (fastforce simp: sim_issued_def)
  have b: "insert (sim_uuid (sim_next s)) (sim_issued s)
             \<subseteq> sim_issued (s\<lparr>sim_next := Suc (sim_next s)\<rparr>)" for s
    by (auto simp: sim_issued_def lessThan_Suc)
  have c: "sim_issued s \<subseteq> sim_issued (snd (renderer command cwd s))" for command cwd s
    using assms [of command cwd s] by (simp add: sim_issued_def)
  show ?thesis
    unfolding freshIdentifiers_def
    using a b c by (simp add: sim_api_def sim_issued_def)
qed

lemma stageAndExport_issued:
  assumes "freshIdentifiers api issued"
      and "stageAndExport api format markdown theme ctx w1 = (outcome, w2)"
  shows "issued (os w1) \<subseteq> issued (os w2)"
proof -
  from assms(1) have mk: "\<And>path s. issued s \<subseteq> issued (snd (mkdirSync api path s))"
    and wr: "\<And>path data s. issued s \<subseteq> issued (snd (writeFileSync api path data s))"
    and ex: "\<And>command cwd s. issued s \<subseteq> issued (snd (execSync api command cwd s))"
    by (simp_all add: freshIdentifiers_def)
  have m: "issued (os v) \<subseteq> issued (os (snd (call_mkdirSync api path v)))" for path v
    using mk [of "os v" path]
    by (cases "mkdirSync api path (os v)") (simp add: call_mkdirSync_def)
  have wf: "issued (os v) \<subseteq> issued (os (snd (call_writeFileSync api path data v)))" for path data v
    using wr [of "os v" path data]
    by (cases "writeFileSync api path data (os v)") (simp add: call_writeFileSync_def)
  have e: "issued (os v) \<subseteq> issued (os (snd (call_execSync api command cwd v)))" for command cwd v
    using ex [of "os v" command cwd]
    by (cases "execSync api command cwd (os v)") (simp add: call_execSync_def)
  let ?a = "if existsSync api (workDir ctx) (os w1) then (Inr (), w1)
            else call_mkdirSync api (workDir ctx) w1"
  let ?b = "call_mkdirSync api (executionDir ctx) (snd ?a)"
  let ?c = "call_writeFileSync api (path_join [executionDir ctx, ''slides.md'']) markdown (snd ?b)"
  let ?d = "call_execSync api (slidevCommand (projectDir ctx) format theme) (executionDir ctx) (snd ?c)"
  have a: "issued (os w1) \<subseteq> issued (os (snd ?a))" using m [of w1 "workDir ctx"] by simp
  have b: "issued (os (snd ?a)) \<subseteq> issued (os (snd ?b))" by (rule m)
  have c: "issued (os (snd ?b)) \<subseteq> issued (os (snd ?c))" by (rule wf)
  have d: "issued (os (snd ?c)) \<subseteq> issued (os (snd ?d))" by (rule e)
  have "w2 = snd ?a \<or> w2 = snd ?b \<or> w2 = snd ?c \<or> w2 = snd ?d"
    using assms(2)
    by (auto simp: stageAndExport_def stage_def and_then_def split: prod.splits sum.splits if_splits)
  with a b c d show ?thesis by blast
qed

text \<open>
  C9.  Two \<open>generateSlide\<close> invocations of one process, the second started after the
  first has returned, with the same markdown and theme, both successful, the renderer
  leaving the same files with the same bytes in each execution directory, on a host
  whose \<open>randomUUID\<close> gives fresh identifiers: the two responses are equal from the
  second part on, their first parts are text parts holding two different identifiers,
  and the second invocation ran the renderer again, in its own execution directory.
\<close>

theorem repeated_invocation:
  assumes "freshIdentifiers api issued"
      and "begin_invocation api w = (ctx, w1)"
      and "stageAndExport api ''png'' markdown (themeOrDefault theme_arg) ctx w1 = (Inr (), w2)"
      and "readdirSync api (path_join [executionDir ctx, ''slides-export'']) (os w2) = Inr names"
      and "\<forall>f \<in> set (pngFiles api names).
             readFileSync api (path_join [path_join [executionDir ctx, ''slides-export''], f]) (os w2)
               = Inr (bytes f)"
      and "issued (os w2) \<subseteq> issued (os w3)"
      and "begin_invocation api w3 = (ctx', w1')"
      and "stageAndExport api ''png'' markdown (themeOrDefault theme_arg) ctx' w1' = (Inr (), w2')"
      and "readdirSync api (path_join [executionDir ctx', ''slides-export'']) (os w2') = Inr names"
      and "\<forall>f \<in> set (pngFiles api names).
             readFileSync api (path_join [path_join [executionDir ctx', ''slides-export''], f]) (os w2')
               = Inr (bytes f)"
  shows "\<exists>rest new.
           generateSlide api markdown theme_arg w = (TextPart (executionId ctx) # rest, w2)
           \<and> generateSlide api markdown theme_arg w3 = (TextPart (executionId ctx') # rest, w2')
           \<and> executionId ctx \<noteq> executionId ctx'
           \<and> journal w2' = journal w3 @ new
           \<and> Exec (slidevCommand (projectDir ctx') ''png'' (themeOrDefault theme_arg))
                (executionDir ctx') \<in> set new"
proof -
  let ?rest = "TextPart (JSON_stringify_params markdown (themeOrDefault theme_arg))
                # map (\<lambda>f. ImagePart (toString_base64 (bytes f)) ''image/png'') (pngFiles api names)"
  have first: "generateSlide api markdown theme_arg w = (TextPart (executionId ctx) # ?rest, w2)"
    using assms(2-5) by (rule generateSlide_success)
  have second: "generateSlide api markdown theme_arg w3 = (TextPart (executionId ctx') # ?rest, w2')"
    using assms(7-10) by (rule generateSlide_success)
  from assms(1)
  have fresh: "\<And>s. fst (randomUUID api s) \<notin> issued s"
    and kept: "\<And>s. fst (randomUUID api s) \<in> issued (snd (randomUUID api s))"
    by (auto simp: freshIdentifiers_def)
  have "executionId ctx \<in> issued (os w1)"
    using begin_invocation_fields(3,5) [OF assms(2)] kept [of "os w"] by simp
  then have "executionId ctx \<in> issued (os w3)"
    using stageAndExport_issued [OF assms(1,3)] assms(6) by blast
  moreover have "executionId ctx' \<notin> issued (os w3)"
    using begin_invocation_fields(3) [OF assms(7)] fresh [of "os w3"] by simp
  ultimately have different: "executionId ctx \<noteq> executionId ctx'" by metis
  have j: "journal w1' = journal w3"
    using begin_invocation_fields(5) [OF assms(7)] by simp
  from stageAndExport_journal [OF assms(8)] obtain new
    where "journal w2' = journal w1' @ new"
      and "Exec (slidevCommand (projectDir ctx') ''png'' (themeOrDefault theme_arg))
             (executionDir ctx') \<in> set new"
    by blast
  with first second different j show ?thesis by auto
qed

theorem repeated_invocation_witness:
  "fst (generateSlide (sim_api (render_images [''1.png'', ''2.png''] sample_bytes))
          ''# Title'' None sim_start)
     = [TextPart ''id-1'', TextPart (JSON_stringify_params ''# Title'' ''default''),
        ImagePart ''MS5wbmc='' ''image/png'', ImagePart ''Mi5wbmc='' ''image/png'']
   \<and> fst (generateSlide (sim_api (render_images [''1.png'', ''2.png''] sample_bytes))
          ''# Title'' None after_first)
     = [TextPart ''id-11'', TextPart (JSON_stringify_params ''# Title'' ''default''),
        ImagePart ''MS5wbmc='' ''image/png'', ImagePart ''Mi5wbmc='' ''image/png'']"
proof -
  let ?names = "[''1.png'', ''2.png'']"
  let ?api = "sim_api (render_images ?names sample_bytes)"
  let ?b = "begin_invocation ?api sim_start"
  let ?st = "stageAndExport ?api ''png'' ''# Title'' (themeOrDefault None) (fst ?b) (snd ?b)"
  let ?b' = "begin_invocation ?api (snd ?st)"
  let ?st' = "stageAndExport ?api ''png'' ''# Title'' (themeOrDefault None) (fst ?b') (snd ?b')"
  have h0: "freshIdentifiers ?api sim_issued"
    by (rule sim_fresh) (simp add: render_images_def)
  have h1: "?b = (fst ?b, snd ?b)" by simp
  have "fst ?st = Inr ()" by code_simp
  then have h2: "?st = (Inr (), snd ?st)" by (metis prod.collapse)
  have h3: "readdirSync ?api (path_join [executionDir (fst ?b), ''slides-export'']) (os (snd ?st))
              = Inr ?names"
    by code_simp
  have h4: "\<forall>f \<in> set (pngFiles ?api ?names).
              readFileSync ?api (path_join [path_join [executionDir (fst ?b), ''slides-export''], f])
                (os (snd ?st)) = Inr (sample_bytes f)"
    by code_simp
  have later: "sim_issued (os (snd ?st)) \<subseteq> sim_issued (os (snd ?st))" by simp
  have k1: "?b' = (fst ?b', snd ?b')" by simp
  have "fst ?st' = Inr ()" by code_simp
  then have k2: "?st' = (Inr (), snd ?st')" by (metis prod.collapse)
  have k3: "readdirSync ?api (path_join [executionDir (fst ?b'), ''slides-export'']) (os (snd ?st'))
              = Inr ?names"
    by code_simp
  have k4: "\<forall>f \<in> set (pngFiles ?api ?names).
              readFileSync ?api (path_join [path_join [executionDir (fst ?b'), ''slides-export''], f])
                (os (snd ?st')) = Inr (sample_bytes f)"
    by code_simp
  have i1: "executionId (fst ?b) = ''id-1''" and i2: "executionId (fst ?b') = ''id-11''"
    by code_simp+
  from repeated_invocation [OF h0 h1 h2 h3 h4 later k1 k2 k3 k4] obtain rest
    where r1: "generateSlide ?api ''# Title'' None sim_start = (TextPart ''id-1'' # rest, snd ?st)"
      and r2: "generateSlide ?api ''# Title'' None (snd ?st) = (TextPart ''id-11'' # rest, snd ?st')"
    unfolding i1 i2 by blast
  have e1: "fst (generateSlide ?api ''# Title'' None sim_start)
     = [TextPart ''id-1'', TextPart (JSON_stringify_params ''# Title'' ''default''),
        ImagePart ''MS5wbmc='' ''image/png'', ImagePart ''Mi5wbmc='' ''image/png'']"
    by code_simp
  with r1 have rest: "rest = [TextPart (JSON_stringify_params ''# Title'' ''default''),
        ImagePart ''MS5wbmc='' ''image/png'', ImagePart ''Mi5wbmc='' ''image/png'']"
    by simp
  have af: "after_first = snd ?st" using r1 by (simp add: after_first_def)
  have e2: "fst (generateSlide ?api ''# Title'' None after_first)
     = [TextPart ''id-11'', TextPart (JSON_stringify_params ''# Title'' ''default''),
        ImagePart ''MS5wbmc='' ''image/png'', ImagePart ''Mi5wbmc='' ''image/png'']"
    unfolding af using r2 rest by simp
  show ?thesis using e1 e2 by (intro conjI)
qed

section \<open>Missing output\<close>

text \<open>
  Against C6 as stated: the export directory exists and is empty, after a renderer that
  succeeded, and the response is the two text parts of the success envelope, not an
  error text part.
\<close>

theorem empty_export_counterexample:
  "fst (stageAndExport (sim_api (render_images [] sample_bytes)) ''png'' ''# Title'' ''default''
          (fst (begin_invocation (sim_api (render_images [] sample_bytes)) sim_start))
          (snd (begin_invocation (sim_api (render_images [] sample_bytes)) sim_start)))
     = Inr ()
   \<and> readdirSync (sim_api (render_images [] sample_bytes)) ''/app/.slidev-work/id-1/slides-export''
        (os (snd (generateSlide (sim_api (render_images [] sample_bytes)) ''# Title'' None sim_start)))
     = Inr []
   \<and> fst (generateSlide (sim_api (render_images [] sample_bytes)) ''# Title'' None sim_start)
     = [TextPart ''id-1'', TextPart (JSON_stringify_params ''# Title'' ''default'')]"
  by code_simp

text \<open>
  C6, as the code has it.  After a renderer that succeeded: when listing the export
  directory throws (the directory is absent), the handler takes the \<open>catch\<close> path of a
  subprocess failure and returns the single failure text part; when the directory
  exists and holds no name ending in \<open>.png\<close>, the handler returns the success
  envelope, its two text parts and no image part.
\<close>

theorem missing_or_empty_output:
  assumes "begin_invocation api w = (ctx, w1)"
      and "stageAndExport api ''png'' markdown (themeOrDefault theme_arg) ctx w1 = (Inr (), w2)"
  shows "(readdirSync api (path_join [executionDir ctx, ''slides-export'']) (os w2) = Inl error
            \<longrightarrow> fst (generateSlide api markdown theme_arg w)
                  = [TextPart (''Failed to generate slides: '' @ errorMessage error)])
         \<and> (readdirSync api (path_join [executionDir ctx, ''slides-export'']) (os w2) = Inr names
              \<and> filter (\<lambda>f. endsWith f ''.png'') names = []
            \<longrightarrow> fst (generateSlide api markdown theme_arg w)
                  = [TextPart (executionId ctx),
                     TextPart (JSON_stringify_params markdown (themeOrDefault theme_arg))])"
proof (intro conjI impI)
  assume "readdirSync api (path_join [executionDir ctx, ''slides-export'']) (os w2) = Inl error"
  with assms show "fst (generateSlide api markdown theme_arg w)
                  = [TextPart (''Failed to generate slides: '' @ errorMessage error)]"
    by (simp add: generateSlide_def generateSlide_try_def and_then_def)
next
  assume a: "readdirSync api (path_join [executionDir ctx, ''slides-export'']) (os w2) = Inr names
              \<and> filter (\<lambda>f. endsWith f ''.png'') names = []"
  then have "pngFiles api names = []" by (simp add: pngFiles_none)
  with assms a show "fst (generateSlide api markdown theme_arg w)
                  = [TextPart (executionId ctx),
                     TextPart (JSON_stringify_params markdown (themeOrDefault theme_arg))]"
    by (simp add: generateSlide_def generateSlide_try_def and_then_def)
qed

theorem missing_or_empty_output_witness:
  "fst (generateSlide (sim_api render_nothing) ''# Title'' None sim_start)
     = [TextPart ''Failed to generate slides: ENOENT'']
   \<and> fst (generateSlide (sim_api (render_images [''notes.txt''] sample_bytes)) ''# Title'' None sim_start)
     = [TextPart ''id-1'', TextPart (JSON_stringify_params ''# Title'' ''default'')]"
proof -
  let ?api = "sim_api render_nothing"
  let ?b = "begin_invocation ?api sim_start"
  let ?st = "stageAndExport ?api ''png'' ''# Title'' (themeOrDefault None) (fst ?b) (snd ?b)"
  have h1: "?b = (fst ?b, snd ?b)" by simp
  have "fst ?st = Inr ()" by code_simp
  then have h2: "?st = (Inr (), snd ?st)" by (metis prod.collapse)
  have h3: "readdirSync ?api (path_join [executionDir (fst ?b), ''slides-export'']) (os (snd ?st))
              = Inl (JsError ''ENOENT'')"
    by code_simp
  let ?api' = "sim_api (render_images [''notes.txt''] sample_bytes)"
  let ?b' = "begin_invocation ?api' sim_start"
  let ?st' = "stageAndExport ?api' ''png'' ''# Title'' (themeOrDefault None) (fst ?b') (snd ?b')"
  have k1: "?b' = (fst ?b', snd ?b')" by simp
  have "fst ?st' = Inr ()" by code_simp
  then have k2: "?st' = (Inr (), snd ?st')" by (metis prod.collapse)
  have k3: "readdirSync ?api' (path_join [executionDir (fst ?b'), ''slides-export'']) (os (snd ?st'))
              = Inr [''notes.txt'']
            \<and> filter (\<lambda>f. endsWith f ''.png'') [''notes.txt''] = []"
    by code_simp
  have ident: "executionId (fst ?b') = ''id-1''" by code_simp
  have first: "fst (generateSlide ?api ''# Title'' None sim_start)
                 = [TextPart (''Failed to generate slides: '' @ errorMessage (JsError ''ENOENT''))]"
    using missing_or_empty_output [OF h1 h2, of "JsError ''ENOENT''"] h3 by blast
  have second: "fst (generateSlide ?api' ''# Title'' None sim_start)
                  = [TextPart (executionId (fst ?b')),
                     TextPart (JSON_stringify_params ''# Title'' (themeOrDefault None))]"
    using missing_or_empty_output [OF k1 k2, of _ "[''notes.txt'']"] k3 by blast
  show ?thesis
    using first second by (simp add: ident)
qed

section \<open>Failures of the renderer\<close>

lemma try_after_failed_export:
  assumes "fst (stageAndExport api (exportFormat t) markdown theme ctx w1) = Inl error"
  shows "fst (tryBlock t api markdown theme ctx w1) = Inl error"
  using assms
  by (cases t)
     (auto simp: generateSlide_try_def generateSlidePDF_try_def generateSlidePPTX_try_def
        and_then_def split: prod.splits sum.splits)

lemma stageAndExport_exec_throws:
  assumes "stage api markdown ctx w1 = (Inr (), w2)"
      and "execSync api (slidevCommand (projectDir ctx) format theme) (executionDir ctx) (os w2)
             = (Inl error, s3)"
  shows "fst (stageAndExport api format markdown theme ctx w1) = Inl error"
  using assms by (simp add: stageAndExport_def and_then_def call_execSync_def)

lemma handler_catch:
  assumes "begin_invocation api w = (ctx, w1)"
      and "fst (tryBlock t api markdown (themeOrDefault theme_arg) ctx w1) = Inl error"
  shows "fst (handler t api markdown theme_arg w)
           = [TextPart (failurePrefix t @ errorMessage error)]"
  using assms
  by (cases t)
     (auto simp: generateSlide_def generateSlidePDF_def generateSlidePPTX_def
        split: prod.splits sum.splits)

text \<open>
  C2.  In any of the three tools: when \<open>execSync\<close> throws after the staging steps
  (the subprocess exits non-zero or cannot be started), or when any call of the
  \<open>try\<close> block throws, the handler returns, and its content is the single text part
  made of the tool's failure prefix and the message of the error: one text part, no
  image part, no resource part.
\<close>

theorem subprocess_failure_single_text_part:
  assumes "begin_invocation api w = (ctx, w1)"
      and "(stage api markdown ctx w1 = (Inr (), w2)
            \<and> execSync api
                 (slidevCommand (projectDir ctx) (exportFormat t) (themeOrDefault theme_arg))
                 (executionDir ctx) (os w2) = (Inl error, s3))
           \<or> fst (tryBlock t api markdown (themeOrDefault theme_arg) ctx w1) = Inl error"
  shows "fst (handler t api markdown theme_arg w)
           = [TextPart (failurePrefix t @ errorMessage error)]
         \<and> length (filter isText (fst (handler t api markdown theme_arg w))) = 1
         \<and> filter isImage (fst (handler t api markdown theme_arg w)) = []
         \<and> filter isResource (fst (handler t api markdown theme_arg w)) = []"
proof -
  have "fst (tryBlock t api markdown (themeOrDefault theme_arg) ctx w1) = Inl error"
    using assms(2)
  proof
    assume "stage api markdown ctx w1 = (Inr (), w2)
            \<and> execSync api
                 (slidevCommand (projectDir ctx) (exportFormat t) (themeOrDefault theme_arg))
                 (executionDir ctx) (os w2) = (Inl error, s3)"
    then have "fst (stageAndExport api (exportFormat t) markdown (themeOrDefault theme_arg) ctx w1)
                 = Inl error"
      by (intro stageAndExport_exec_throws [of api markdown ctx w1 w2 _ _ error s3]) simp_all
    then show ?thesis by (rule try_after_failed_export)
  qed
  with assms(1) have "fst (handler t api markdown theme_arg w)
          = [TextPart (failurePrefix t @ errorMessage error)]"
    by (rule handler_catch)
  then show ?thesis by simp
qed

theorem subprocess_failure_witness:
  "fst (handler GenerateSlidePDF (sim_api (render_fails ''Command failed: exit code 1''))
          ''# Title'' (Some ''seriph'') sim_start)
     = [TextPart ''Failed to generate PDF: Command failed: exit code 1'']
   \<and> fst (handler GenerateSlidePPTX (sim_api render_nothing) ''# Title'' None sim_start)
     = [TextPart ''Failed to generate PPTX: ENOENT'']"
proof -
  let ?api = "sim_api (render_fails ''Command failed: exit code 1'')"
  let ?b = "begin_invocation ?api sim_start"
  let ?st = "stage ?api ''# Title'' (fst ?b) (snd ?b)"
  have h1: "?b = (fst ?b, snd ?b)" by simp
  have "fst ?st = Inr ()" by code_simp
  then have h2: "?st = (Inr (), snd ?st)" by (metis prod.collapse)
  have h3: "execSync ?api
              (slidevCommand (projectDir (fst ?b)) (exportFormat GenerateSlidePDF)
                 (themeOrDefault (Some ''seriph'')))
              (executionDir (fst ?b)) (os (snd ?st))
            = (Inl (JsError ''Command failed: exit code 1''), os (snd ?st))"
    by (simp add: sim_api_def render_fails_def)
  have first: "fst (handler GenerateSlidePDF ?api ''# Title'' (Some ''seriph'') sim_start)
                 = [TextPart ''Failed to generate PDF: Command failed: exit code 1'']"
    using subprocess_failure_single_text_part [OF h1 disjI1 [OF conjI [OF h2 h3]]] by simp
  let ?api' = "sim_api render_nothing"
  let ?b' = "begin_invocation ?api' sim_start"
  have k1: "?b' = (fst ?b', snd ?b')" by simp
  have k2: "fst (tryBlock GenerateSlidePPTX ?api' ''# Title'' (themeOrDefault None) (fst ?b') (snd ?b'))
              = Inl (JsError ''ENOENT'')"
    by code_simp
  have second: "fst (handler GenerateSlidePPTX ?api' ''# Title'' None sim_start)
                  = [TextPart ''Failed to generate PPTX: ENOENT'']"
    using subprocess_failure_single_text_part [OF k1 disjI2 [OF k2]] by simp
  show ?thesis using first second by (intro conjI)
qed

section \<open>The handlers of the mini-app\<close>

text \<open>
  C7.  When the markdown field, trimmed, is empty, each of the three handlers completes
  without calling the server: \<open>handleRegenerate\<close> shows the alert "Please populate
  markdown first"; \<open>handleGeneratePdf\<close> shows the alert "Please generate slides first"
  when there is no execution identifier and otherwise sets the status to "Please
  populate markdown first"; \<open>handleGeneratePptx\<close> appends that message to the status.
\<close>

theorem empty_markdown_no_call:
  assumes "trim (markdownInput_value u) = []"
  shows "(\<exists>u'. handleRegenerate callServerTool u = Completed u'
            \<and> serverCalls u' = serverCalls u
            \<and> alerts u' = alerts u @ [''Please populate markdown first''])
         \<and> (\<exists>u'. handleGeneratePdf callServerTool u = Completed u'
            \<and> serverCalls u' = serverCalls u
            \<and> (if currentExecutionId u = None \<or> currentExecutionId u = Some []
                then alerts u' = alerts u @ [''Please generate slides first'']
                else pdfStatusDiv u' = [TextNode ''Please populate markdown first'']))
         \<and> (\<exists>u'. handleGeneratePptx callServerTool u = Completed u'
            \<and> serverCalls u' = serverCalls u
            \<and> pdfStatusDiv u'
                = [Html (''<br><strong>Generating PPTX with theme: '' @ themeSelect_value u
                         @ ''</strong>''),
                   Html ''<br>Please populate markdown first''])"
  using assms
  by (simp add: handleRegenerate_def handleGeneratePdf_def handleGeneratePptx_def Let_def)

theorem empty_markdown_no_call_witness:
  "trim (markdownInput_value blank_ui) = []
   \<and> map_option serverCalls (completed (handleRegenerate (\<lambda>request. Pending) blank_ui)) = Some []
   \<and> map_option alerts (completed (handleRegenerate (\<lambda>request. Pending) blank_ui))
       = Some [''Please populate markdown first'']
   \<and> map_option serverCalls (completed (handleGeneratePdf (\<lambda>request. Pending) blank_ui)) = Some []
   \<and> map_option pdfStatusDiv (completed (handleGeneratePdf (\<lambda>request. Pending) blank_ui))
       = Some [TextNode ''Please populate markdown first'']
   \<and> map_option serverCalls (completed (handleGeneratePptx (\<lambda>request. Pending) blank_ui)) = Some []
   \<and> map_option pdfStatusDiv (completed (handleGeneratePptx (\<lambda>request. Pending) blank_ui))
       = Some [Html ''<br><strong>Generating PPTX with theme: seriph</strong>'',
               Html ''<br>Please populate markdown first'']"
proof -
  have h: "trim (markdownInput_value blank_ui) = []" by code_simp
  have calls: "serverCalls blank_ui = []" and al: "alerts blank_ui = []"
    and th: "themeSelect_value blank_ui = ''seriph''"
    and ex: "\<not> (currentExecutionId blank_ui = None \<or> currentExecutionId blank_ui = Some [])"
    by (simp_all add: blank_ui_def sample_ui_def)
  from empty_markdown_no_call [OF h, of "\<lambda>request. Pending"]
  obtain a b c
    where a: "handleRegenerate (\<lambda>request. Pending) blank_ui = Completed a"
             "serverCalls a = serverCalls blank_ui"
             "alerts a = alerts blank_ui @ [''Please populate markdown first'']"
      and b: "handleGeneratePdf (\<lambda>request. Pending) blank_ui = Completed b"
             "serverCalls b = serverCalls blank_ui"
             "if currentExecutionId blank_ui = None \<or> currentExecutionId blank_ui = Some []
              then alerts b = alerts blank_ui @ [''Please generate slides first'']
              else pdfStatusDiv b = [TextNode ''Please populate markdown first'']"
      and c: "handleGeneratePptx (\<lambda>request. Pending) blank_ui = Completed c"
             "serverCalls c = serverCalls blank_ui"
             "pdfStatusDiv c
                = [Html (''<br><strong>Generating PPTX with theme: '' @ themeSelect_value blank_ui
                         @ ''</strong>''),
                   Html ''<br>Please populate markdown first'']"
    by blast
  from b(3) ex have b3: "pdfStatusDiv b = [TextNode ''Please populate markdown first'']"
    by simp
  show ?thesis
    using h a b(1,2) b3 c by (simp add: calls al th)
qed

text \<open>
  C8.  No assumption is made on the state of the page when a handler starts.
  \<open>handleRegenerate\<close> returns before touching its button when the markdown field,
  trimmed, is empty, and \<open>handleGeneratePdf\<close> when there is no execution identifier:
  the button is then as it was.  Past these returns each handler disables its button,
  and it stays disabled for as long as the server call is pending; on every other path
  (a result, flagged as an error or not, a rejection, the return on empty markdown
  inside \<open>try\<close>) the handler completes with its button enabled, whatever the page was
  at the start.  \<open>handleGeneratePptx\<close> has no return before \<open>try\<close>.
\<close>

theorem trigger_control_reenabled:
  "(if trim (markdownInput_value u) = []
    then \<exists>u'. handleRegenerate callServerTool u = Completed u'
           \<and> regenerateBtn_disabled u' = regenerateBtn_disabled u
    else if callServerTool (Request ''generateSlide'' (trim (markdownInput_value u))
                              (themeSelect_value u)) = Pending
    then \<exists>u'. handleRegenerate callServerTool u = Suspended u' \<and> regenerateBtn_disabled u'
    else \<exists>u'. handleRegenerate callServerTool u = Completed u' \<and> \<not> regenerateBtn_disabled u')
   \<and> (if currentExecutionId u = None \<or> currentExecutionId u = Some []
       then \<exists>u'. handleGeneratePdf callServerTool u = Completed u'
              \<and> generatePdfBtn_disabled u' = generatePdfBtn_disabled u
       else if trim (markdownInput_value u) \<noteq> []
               \<and> callServerTool (Request ''generateSlidePDF'' (trim (markdownInput_value u))
                                    (themeSelect_value u)) = Pending
       then \<exists>u'. handleGeneratePdf callServerTool u = Suspended u' \<and> generatePdfBtn_disabled u'
       else \<exists>u'. handleGeneratePdf callServerTool u = Completed u' \<and> \<not> generatePdfBtn_disabled u')
   \<and> (if trim (markdownInput_value u) \<noteq> []
          \<and> callServerTool (Request ''generateSlidePPTX'' (trim (markdownInput_value u))
                               (themeSelect_value u)) = Pending
       then \<exists>u'. handleGeneratePptx callServerTool u = Suspended u' \<and> generatePptxBtn_disabled u'
       else \<exists>u'. handleGeneratePptx callServerTool u = Completed u' \<and> \<not> generatePptxBtn_disabled u')"
proof (intro conjI)
  show "if trim (markdownInput_value u) = []
    then \<exists>u'. handleRegenerate callServerTool u = Completed u'
           \<and> regenerateBtn_disabled u' = regenerateBtn_disabled u
    else if callServerTool (Request ''generateSlide'' (trim (markdownInput_value u))
                              (themeSelect_value u)) = Pending
    then \<exists>u'. handleRegenerate callServerTool u = Suspended u' \<and> regenerateBtn_disabled u'
    else \<exists>u'. handleRegenerate callServerTool u = Completed u' \<and> \<not> regenerateBtn_disabled u'"
    by (auto simp: handleRegenerate_def Let_def displaySlides_def split: outcome.splits)
  show "if currentExecutionId u = None \<or> currentExecutionId u = Some []
       then \<exists>u'. handleGeneratePdf callServerTool u = Completed u'
              \<and> generatePdfBtn_disabled u' = generatePdfBtn_disabled u
       else if trim (markdownInput_value u) \<noteq> []
               \<and> callServerTool (Request ''generateSlidePDF'' (trim (markdownInput_value u))
                                    (themeSelect_value u)) = Pending
       then \<exists>u'. handleGeneratePdf callServerTool u = Suspended u' \<and> generatePdfBtn_disabled u'
       else \<exists>u'. handleGeneratePdf callServerTool u = Completed u' \<and> \<not> generatePdfBtn_disabled u'"
    by (auto simp: handleGeneratePdf_def Let_def split: outcome.splits sum.splits)
  show "if trim (markdownInput_value u) \<noteq> []
          \<and> callServerTool (Request ''generateSlidePPTX'' (trim (markdownInput_value u))
                               (themeSelect_value u)) = Pending
       then \<exists>u'. handleGeneratePptx callServerTool u = Suspended u' \<and> generatePptxBtn_disabled u'
       else \<exists>u'. handleGeneratePptx callServerTool u = Completed u' \<and> \<not> generatePptxBtn_disabled u'"
    by (auto simp: handleGeneratePptx_def Let_def split: outcome.splits sum.splits)
qed

theorem trigger_control_reenabled_witness:
  "map_option regenerateBtn_disabled (completed (handleRegenerate failing_call busy_ui)) = Some False
   \<and> map_option generatePdfBtn_disabled (completed (handleGeneratePdf failing_call busy_ui)) = Some False
   \<and> map_option generatePptxBtn_disabled (completed (handleGeneratePptx failing_call busy_ui)) = Some False
   \<and> map_option regenerateBtn_disabled (suspended (handleRegenerate pending_call sample_ui)) = Some True
   \<and> map_option generatePdfBtn_disabled (suspended (handleGeneratePdf pending_call sample_ui)) = Some True
   \<and> map_option generatePptxBtn_disabled (suspended (handleGeneratePptx pending_call sample_ui)) = Some True"
proof -
  have t: "trim (markdownInput_value busy_ui) \<noteq> []" "trim (markdownInput_value sample_ui) \<noteq> []"
    by code_simp+
  have e: "\<not> (currentExecutionId busy_ui = None \<or> currentExecutionId busy_ui = Some [])"
          "\<not> (currentExecutionId sample_ui = None \<or> currentExecutionId sample_ui = Some [])"
    by (simp_all add: busy_ui_def sample_ui_def)
  from trigger_control_reenabled [where u = busy_ui and callServerTool = failing_call] t(1) e(1)
  have "(\<exists>u'. handleRegenerate failing_call busy_ui = Completed u' \<and> \<not> regenerateBtn_disabled u')
      \<and> (\<exists>u'. handleGeneratePdf failing_call busy_ui = Completed u' \<and> \<not> generatePdfBtn_disabled u')
      \<and> (\<exists>u'. handleGeneratePptx failing_call busy_ui = Completed u' \<and> \<not> generatePptxBtn_disabled u')"
    by (simp add: failing_call_def)
  then obtain a b c
    where settled: "handleRegenerate failing_call busy_ui = Completed a" "\<not> regenerateBtn_disabled a"
      "handleGeneratePdf failing_call busy_ui = Completed b" "\<not> generatePdfBtn_disabled b"
      "handleGeneratePptx failing_call busy_ui = Completed c" "\<not> generatePptxBtn_disabled c"
    by blast
  from trigger_control_reenabled [where u = sample_ui and callServerTool = pending_call] t(2) e(2)
  have "(\<exists>u'. handleRegenerate pending_call sample_ui = Suspended u' \<and> regenerateBtn_disabled u')
      \<and> (\<exists>u'. handleGeneratePdf pending_call sample_ui = Suspended u' \<and> generatePdfBtn_disabled u')
      \<and> (\<exists>u'. handleGeneratePptx pending_call sample_ui = Suspended u' \<and> generatePptxBtn_disabled u')"
    by (simp add: pending_call_def)
  then obtain a' b' c'
    where waiting: "handleRegenerate pending_call sample_ui = Suspended a'" "regenerateBtn_disabled a'"
      "handleGeneratePdf pending_call sample_ui = Suspended b'" "generatePdfBtn_disabled b'"
      "handleGeneratePptx pending_call sample_ui = Suspended c'" "generatePptxBtn_disabled c'"
    by blast
  show ?thesis using settled waiting by simp
qed

end
